theory Spec2Isabelle
  imports Main "HOL-Library.AList" "HOL-Library.Char_ord" "HOL-Library.List_Lexorder"
begin

section \<open>Values, rows and tables\<close>

text \<open>
  A spreadsheet cell as pandas hands it to the scripts: a missing value (\<open>NaN\<close> or
  \<open>None\<close>, which \<open>pd.isna\<close> does not tell apart), a string, or an integer.
  A row is a pandas \<open>Series\<close>: an ordered list of labelled cells. A table is a
  \<open>DataFrame\<close>: its column labels and its rows.
\<close>

datatype cell = Null | Str string | Num int

type_synonym row = "(string \<times> cell) list"

record table =
  columns :: "string list"
  rows :: "row list"

datatype error = KeyError string | ValueError

definition isna :: "cell \<Rightarrow> bool" where
  "isna v = (v = Null)"

definition notna :: "cell \<Rightarrow> bool" where
  "notna v = (v \<noteq> Null)"

text \<open>\<open>row.get(c, d)\<close>, \<open>row[c]\<close> (which raises \<open>KeyError\<close>) and \<open>c in row\<close>.\<close>

definition row_get :: "row \<Rightarrow> string \<Rightarrow> cell \<Rightarrow> cell" where
  "row_get r c d = (case map_of r c of None \<Rightarrow> d | Some v \<Rightarrow> v)"

definition row_item :: "row \<Rightarrow> string \<Rightarrow> error + cell" where
  "row_item r c = (case map_of r c of None \<Rightarrow> Inl (KeyError c) | Some v \<Rightarrow> Inr v)"

definition row_has :: "row \<Rightarrow> string \<Rightarrow> bool" where
  "row_has r c = (map_of r c \<noteq> None)"

section \<open>Python string operations\<close>

text \<open>Strings are byte strings; case folding and white space are those of ASCII.\<close>

definition lower_char :: "char \<Rightarrow> char" where
  "lower_char c =
     (case map_of (zip ''ABCDEFGHIJKLMNOPQRSTUVWXYZ'' ''abcdefghijklmnopqrstuvwxyz'') c of
        Some l \<Rightarrow> l | None \<Rightarrow> c)"

definition py_lower :: "string \<Rightarrow> string" where
  "py_lower s = map lower_char s"

definition is_space :: "char \<Rightarrow> bool" where
  "is_space c = (of_char c \<in> {9, 10, 11, 12, 13, 28, 29, 30, 31, 32 :: nat})"

definition py_strip :: "string \<Rightarrow> string" where
  "py_strip s = rev (dropWhile is_space (rev (dropWhile is_space s)))"

text \<open>\<open>sub in s\<close> for strings.\<close>

fun starts_with :: "string \<Rightarrow> string \<Rightarrow> bool" where
  "starts_with [] s = True"
| "starts_with (p # ps) [] = False"
| "starts_with (p # ps) (c # cs) = (p = c \<and> starts_with ps cs)"

fun py_in :: "string \<Rightarrow> string \<Rightarrow> bool" where
  "py_in sub [] = (sub = [])"
| "py_in sub (c # cs) = (starts_with sub (c # cs) \<or> py_in sub cs)"

text \<open>\<open>sep.join(xs)\<close>.\<close>

fun py_join :: "string \<Rightarrow> string list \<Rightarrow> string" where
  "py_join sep [] = []"
| "py_join sep [x] = x"
| "py_join sep (x # y # ys) = x @ sep @ py_join sep (y # ys)"

text \<open>\<open>str(n)\<close> for an integer, and \<open>str(v)\<close> for a cell (\<open>str(float('nan'))\<close> is \<open>nan\<close>).\<close>

definition digit_char :: "nat \<Rightarrow> char" where
  "digit_char d = ''0123456789'' ! d"

fun str_nat :: "nat \<Rightarrow> string" where
  "str_nat n = (if n < 10 then [digit_char n] else str_nat (n div 10) @ [digit_char (n mod 10)])"

declare str_nat.simps [simp del]

definition str_int :: "int \<Rightarrow> string" where
  "str_int i = (if i < 0 then CHR ''-'' # str_nat (nat (- i)) else str_nat (nat i))"

fun py_str :: "cell \<Rightarrow> string" where
  "py_str Null = ''nan''"
| "py_str (Str s) = s"
| "py_str (Num i) = str_int i"

section \<open>Key normalizer and status classifier\<close>

text \<open>
  \<open>split_noel\<close> is the same in both scripts. Python's \<open>None\<close> is \<open>Null\<close>;
  \<open>s.split("_", 1)\<close> cuts at the first underscore.
\<close>

definition split_noel :: "cell \<Rightarrow> cell \<times> cell" where
  "split_noel val =
     (if isna val then (Null, Null)
      else let s = py_strip (py_str val) in
        if CHR ''_'' \<in> set s
        then (Str (takeWhile (\<lambda>c. c \<noteq> CHR ''_'') s), Str (tl (dropWhile (\<lambda>c. c \<noteq> CHR ''_'') s)))
        else (Str s, Null))"

text \<open>
  \<open>pd.to_datetime\<close> is the library's parser and \<open>pd.Timestamp.now()\<close> the clock: both
  are parameters. \<open>to_datetime v = Some d\<close> when the value parses to the instant \<open>d\<close>;
  \<open>None\<close> stands for a raised exception (caught by the bare \<open>except\<close>) and for
  \<open>NaT\<close>, which compares false with every instant.
\<close>

definition get_activity_status :: "(cell \<Rightarrow> int option) \<Rightarrow> int \<Rightarrow> row \<Rightarrow> string" where
  "get_activity_status to_datetime now r =
     (let dayt = py_lower (py_str (row_get r ''Daytona'' (Str [])));
          elast = row_get r ''Elastic Daytona'' (Str [])
      in if py_in ''close'' dayt then ''Inactive''
         else if notna elast \<and> (case to_datetime elast of Some dt \<Rightarrow> dt < now | None \<Rightarrow> False)
           then ''Inactive''
         else ''Active'')"

text \<open>\<open>is_inactive\<close> of the older script: the text must be a string holding \<open>closed\<close>.\<close>

definition is_str :: "cell \<Rightarrow> bool" where
  "is_str v = (case v of Str s \<Rightarrow> True | _ \<Rightarrow> False)"

definition is_inactive :: "(cell \<Rightarrow> int option) \<Rightarrow> int \<Rightarrow> cell \<Rightarrow> cell \<Rightarrow> bool" where
  "is_inactive to_datetime now daytona_val elastic_val =
     (if is_str daytona_val \<and> py_in ''closed'' (py_lower (py_str daytona_val)) then True
      else if (case to_datetime elastic_val of Some dt \<Rightarrow> dt < now | None \<Rightarrow> False) then True
      else False)"

section \<open>Enrichment of a table\<close>

text \<open>
  \<open>df[c] = ...\<close> replaces the column \<open>c\<close> in place or appends it.
  \<open>df["NoelFirst"], df["NoelSecond"] = zip(*df["Noel"].apply(split_noel))\<close> raises
  \<open>KeyError\<close> when the table has no column \<open>Noel\<close>, and \<open>ValueError\<close> when it has
  no row: \<open>zip()\<close> of nothing yields nothing, which does not unpack into two targets.
\<close>

definition set_column :: "string list \<Rightarrow> string \<Rightarrow> string list" where
  "set_column cs c = (if c \<in> set cs then cs else cs @ [c])"

definition add_noel_row :: "row \<Rightarrow> row" where
  "add_noel_row r =
     (let p = split_noel (row_get r ''Noel'' Null)
      in AList.update ''NoelSecond'' (snd p) (AList.update ''NoelFirst'' (fst p) r))"

definition add_noel_columns :: "table \<Rightarrow> error + table" where
  "add_noel_columns df =
     (if ''Noel'' \<notin> set (columns df) then Inl (KeyError ''Noel'')
      else if rows df = [] then Inl ValueError
      else Inr \<lparr>columns = set_column (set_column (columns df) ''NoelFirst'') ''NoelSecond'',
                rows = map add_noel_row (rows df)\<rparr>)"

text \<open>\<open>df["Status"] = df.apply(get_activity_status, axis=1)\<close> of the newer script.\<close>

definition add_status21 :: "(cell \<Rightarrow> int option) \<Rightarrow> int \<Rightarrow> table \<Rightarrow> table" where
  "add_status21 to_datetime now df =
     \<lparr>columns = set_column (columns df) ''Status'',
      rows = map (\<lambda>r. AList.update ''Status'' (Str (get_activity_status to_datetime now r)) r) (rows df)\<rparr>"

section \<open>Group aligner\<close>

text \<open>
  \<open>df["NoelFirst"].dropna()\<close>: the column holds what \<open>split_noel\<close> returned, a string
  or \<open>None\<close>. \<open>sorted(set(..) | set(..))\<close> orders the distinct keys as Python orders
  strings, character by character.
\<close>

definition noel_firsts :: "table \<Rightarrow> string list" where
  "noel_firsts df =
     concat (map (\<lambda>r. case row_get r ''NoelFirst'' Null of Str s \<Rightarrow> [s] | _ \<Rightarrow> []) (rows df))"

definition all_noels :: "table \<Rightarrow> table \<Rightarrow> string list" where
  "all_noels df1 df2 = sort (remdups (noel_firsts df1 @ noel_firsts df2))"

text \<open>\<open>df[df["NoelFirst"] == noel_first].reset_index(drop=True)\<close>.\<close>

definition sub_rows :: "table \<Rightarrow> string \<Rightarrow> row list" where
  "sub_rows df noel_first = filter (\<lambda>r. row_get r ''NoelFirst'' Null = Str noel_first) (rows df)"

text \<open>
  \<open>second_map.get(noel_first, [])\<close>, where \<open>second_map\<close> groups the \<open>NoelSecond\<close>
  values of Table2 by \<open>NoelFirst\<close>, each group as a list.
\<close>

definition second_map_get :: "table \<Rightarrow> string \<Rightarrow> cell list" where
  "second_map_get df2 noel_first = map (\<lambda>r. row_get r ''NoelSecond'' Null) (sub_rows df2 noel_first)"

definition is_many_to_many :: "table \<Rightarrow> string \<Rightarrow> bool" where
  "is_many_to_many df2 noel_first = (length (second_map_get df2 noel_first) > 1)"

text \<open>The positional pairing of the inner loop: \<open>row1\<close> and \<open>row2\<close> for each \<open>i\<close>.\<close>

definition aligned_pairs :: "row list \<Rightarrow> row list \<Rightarrow> (row option \<times> row option) list" where
  "aligned_pairs sub_t1 sub_t2 =
     map (\<lambda>i. (if i < length sub_t1 then Some (sub_t1 ! i) else None,
                if i < length sub_t2 then Some (sub_t2 ! i) else None))
         [0 ..< max (length sub_t1) (length sub_t2)]"

text \<open>A list of results raises the first error in it.\<close>

fun collect :: "(error + 'a) list \<Rightarrow> error + 'a list" where
  "collect [] = Inr []"
| "collect (x # xs) =
     (case x of Inl e \<Rightarrow> Inl e
      | Inr v \<Rightarrow> (case collect xs of Inl e \<Rightarrow> Inl e | Inr vs \<Rightarrow> Inr (v # vs)))"

section \<open>Blocks of the newer script\<close>

text \<open>\<open>row.get(c, np.nan) if row is not None else np.nan\<close>.\<close>

definition side_get :: "row option \<Rightarrow> string \<Rightarrow> cell" where
  "side_get ro c = (case ro of None \<Rightarrow> Null | Some r \<Rightarrow> row_get r c Null)"

text \<open>\<open>row["Noel"] if row is not None else np.nan\<close>.\<close>

definition side_item :: "row option \<Rightarrow> string \<Rightarrow> error + cell" where
  "side_item ro c = (case ro of None \<Rightarrow> Inr Null | Some r \<Rightarrow> row_item r c)"

definition build_block1 :: "row option \<Rightarrow> row option \<Rightarrow> bool \<Rightarrow> error + row" where
  "build_block1 row1 row2 many =
     (case side_item row1 ''Noel'' of Inl e \<Rightarrow> Inl e | Inr noel_t1 \<Rightarrow>
      let dayt_t1 = side_get row1 ''Daytona'';
          elast_t1 = side_get row1 ''Elastic Daytona'';
          stat_t1 = side_get row1 ''Status''
      in
      (case side_item row2 ''Noel'' of Inl e \<Rightarrow> Inl e | Inr noel_t2 \<Rightarrow>
      let dayt_t2 = side_get row2 ''Daytona'';
          elast_t2 = side_get row2 ''Elastic Daytona'';
          stat_t2 = side_get row2 ''Status'';
          c1_parts = (if \<not> isna stat_t1 then [''Table1 '' @ py_str stat_t1] else [])
                   @ (if \<not> isna stat_t2 then [''Table2 '' @ py_str stat_t2] else []);
          c2 = (if many then ''many-to-many''
                else if row1 = None \<and> row2 \<noteq> None then ''missing in Table1''
                else if row2 = None \<and> row1 \<noteq> None then ''missing in Table2''
                else ''one-one'')
      in Inr [(''BLOC 1'', Null),
              (''Table1_Noel'', noel_t1),
              (''Table1_Daytona'', dayt_t1),
              (''Table1_Elastic Daytona'', elast_t1),
              (''Table1_Status'', stat_t1),
              (''Table2_Noel'', noel_t2),
              (''Table2_Daytona'', dayt_t2),
              (''Table2_Elastic Daytona'', elast_t2),
              (''Table2_Status'', stat_t2),
              (''Comment1_B1'', Str (py_join '', '' c1_parts)),
              (''Comment2_B1'', Str c2)]))"

definition shared_cols :: "string list" where
  "shared_cols =
     [''Noel'', ''Daytona'', ''No Thing'', ''Pizza'', ''Pizza No Thing'',
      ''Thing Noel'', ''Pizza Coco Daytona'', ''Sun Daytona'', ''Elastic Daytona'',
      ''Hero Rome'', ''Coco Copo Opa Noel'', ''Coco Coco Opa Elastic Noel'']"

definition safe_str :: "cell \<Rightarrow> string" where
  "safe_str x = (if isna x then [] else py_strip (py_str x))"

text \<open>
  One turn of the comparison loop of \<open>build_block2\<close> on the state
  \<open>(mismatch_flag, diff_cols)\<close>; \<open>b2\<close> is the dictionary filled by the two loops
  before it, so each key read here is present.
\<close>

definition scan_col :: "row \<Rightarrow> bool \<times> string list \<Rightarrow> string \<Rightarrow> bool \<times> string list" where
  "scan_col b2 st c =
     (if c = ''Noel'' then st
      else let v1 = row_get b2 (''Table1_'' @ c) Null;
               v2 = row_get b2 (''Table2_'' @ c) Null
      in if isna v1 \<and> notna v2 then (True, snd st @ [c @ '' [T1 missing, T2 present]''])
         else if notna v1 \<and> isna v2 then (True, snd st @ [c @ '' [T1 present, T2 missing]''])
         else let sv1 = safe_str v1; sv2 = safe_str v2
           in if sv1 \<noteq> sv2
              then (True, snd st @ [c @ '' [T1='' @ sv1 @ '', T2='' @ sv2 @ '']''])
              else st)"

definition build_block2 :: "row option \<Rightarrow> row option \<Rightarrow> row" where
  "build_block2 row1 row2 =
     (let b2 = [(''BLOC 2'', Null)]
             @ map (\<lambda>c. (''Table1_'' @ c, side_get row1 c)) shared_cols
             @ map (\<lambda>c. (''Table2_'' @ c, side_get row2 c)) shared_cols;
          noel_t1 = row_get b2 ''Table1_Noel'' Null;
          noel_t2 = row_get b2 ''Table2_Noel'' Null;
          comment1 = (if isna noel_t1 \<and> notna noel_t2 then ''Missing in Table1''
                      else if notna noel_t1 \<and> isna noel_t2 then ''Missing in Table2''
                      else if isna noel_t1 \<and> isna noel_t2 then ''No Noel in both?''
                      else ''Both present'');
          b2c = b2 @ [(''Comment1_B2'', Str comment1)]
      in if isna noel_t1 \<or> isna noel_t2
         then b2c @ [(''Comment2_B2'', Str ''N/A''), (''Comment3_B2'', Str ''N/A'')]
         else let st = foldl (scan_col b2c) (False, []) shared_cols
           in if fst st
              then b2c @ [(''Comment2_B2'', Str ''shared dimensions GAP''),
                          (''Comment3_B2'',
                             Str (if snd st \<noteq> [] then ''Diff columns: '' @ py_join '', '' (snd st)
                                  else ''Diff columns: ???''))]
              else b2c @ [(''Comment2_B2'', Str ''shared dimensions MATCH''),
                          (''Comment3_B2'', Str ''No differences'')])"

definition block3_cols :: "string list" where
  "block3_cols =
     [''Fresca Ana'', ''Fusion Core'', ''Commercial Coco'', ''Super Resort'', ''Italy Coco Coco'',
      ''Virtual America'', ''Fun Coco Elastic'', ''Fun Coco Fun Noel'', ''Right'']"

definition build_block3 :: "row option \<Rightarrow> string list \<Rightarrow> row" where
  "build_block3 row2 cols =
     (case row2 of
        None \<Rightarrow> [(''BLOC 3'', Null)] @ map (\<lambda>c. (''Table2_'' @ c, Null)) cols
      | Some r \<Rightarrow> [(''BLOC 3'', Null)] @ map (\<lambda>c. (''Table2_'' @ c, row_get r c Null)) cols)"

section \<open>The comparison loop of the newer script\<close>

text \<open>
  What one turn of the inner loop appends to \<open>block1_rows\<close>, \<open>block2_rows\<close>,
  \<open>block3_rows\<close> and \<open>comparison_rows\<close>; \<open>{**b1, **b2, **b3}\<close> lets a later
  dictionary overwrite the keys it shares with an earlier one.
\<close>

definition dict_merge :: "row \<Rightarrow> row \<Rightarrow> row" where
  "dict_merge d1 d2 = foldl (\<lambda>d (k, v). AList.update k v d) d1 d2"

record sheet_rows =
  block1 :: row
  block2 :: row
  block3 :: row
  comparison :: row

definition build_rows21 :: "row option \<Rightarrow> row option \<Rightarrow> bool \<Rightarrow> error + sheet_rows" where
  "build_rows21 row1 row2 many =
     (case build_block1 row1 row2 many of Inl e \<Rightarrow> Inl e | Inr b1 \<Rightarrow>
      let b2 = build_block2 row1 row2;
          b3 = build_block3 row2 block3_cols
      in Inr \<lparr>block1 = b1, block2 = b2, block3 = b3,
               comparison = dict_merge (dict_merge b1 b2) b3\<rparr>)"

definition group_rows21 :: "table \<Rightarrow> table \<Rightarrow> string \<Rightarrow> error + sheet_rows list" where
  "group_rows21 df1 df2 noel_first =
     (let sub_t1 = sub_rows df1 noel_first;
          sub_t2 = sub_rows df2 noel_first;
          many = is_many_to_many df2 noel_first
      in collect (map (\<lambda>(row1, row2). build_rows21 row1 row2 many) (aligned_pairs sub_t1 sub_t2)))"

definition compare21 :: "table \<Rightarrow> table \<Rightarrow> error + sheet_rows list" where
  "compare21 df1 df2 =
     (case collect (map (group_rows21 df1 df2) (all_noels df1 df2)) of
        Inl e \<Rightarrow> Inl e | Inr gs \<Rightarrow> Inr (concat gs))"

definition main21 :: "(cell \<Rightarrow> int option) \<Rightarrow> int \<Rightarrow> table \<Rightarrow> table \<Rightarrow> error + sheet_rows list" where
  "main21 to_datetime now t1 t2 =
     (case add_noel_columns t1 of Inl e \<Rightarrow> Inl e | Inr n1 \<Rightarrow>
       (case add_noel_columns t2 of Inl e \<Rightarrow> Inl e | Inr n2 \<Rightarrow>
          compare21 (add_status21 to_datetime now n1) (add_status21 to_datetime now n2)))"

section \<open>The older script\<close>

text \<open>
  \<open>df["Status"] = df.apply(lambda row: "Inactive" if is_inactive(..) else "Active", axis=1)\<close>.
\<close>

definition add_status9 :: "(cell \<Rightarrow> int option) \<Rightarrow> int \<Rightarrow> table \<Rightarrow> table" where
  "add_status9 to_datetime now df =
     \<lparr>columns = set_column (columns df) ''Status'',
      rows = map (\<lambda>r. AList.update ''Status''
                     (Str (if is_inactive to_datetime now (row_get r ''Daytona'' (Str []))
                                (row_get r ''Elastic Daytona'' (Str []))
                           then ''Inactive'' else ''Active'')) r) (rows df)\<rparr>"

definition core_columns :: "string list" where
  "core_columns =
     [''Noel'', ''Daytona'', ''No Thing'', ''Pizza'', ''Pizza No Thing'', ''Pizza Coco Daytona'',
      ''Sun Daytona'', ''Elastic Daytona'', ''Hero Rome'', ''Coco Coco Opa Noel'',
      ''Coco Coco Opa Elastic Noel'', ''Land'']"

definition core_of :: "string list \<Rightarrow> string list" where
  "core_of t_cols = filter (\<lambda>c. c \<in> set t_cols) core_columns"

definition noncore_of :: "string list \<Rightarrow> string list" where
  "noncore_of t_cols = filter (\<lambda>c. c \<notin> set (core_of t_cols)) t_cols"

definition make_active_comment :: "cell \<Rightarrow> cell \<Rightarrow> string" where
  "make_active_comment status_t1 status_t2 =
     (if status_t1 = Str ''Active'' \<and> status_t2 = Str ''Active'' then ''Both Active''
      else if status_t1 = Str ''Active'' \<and> status_t2 = Str ''Inactive'' then ''T1 Active, T2 Inactive''
      else if status_t1 = Str ''Inactive'' \<and> status_t2 = Str ''Active'' then ''T1 Inactive, T2 Active''
      else if status_t1 = Str ''Inactive'' \<and> status_t2 = Str ''Inactive'' then ''Both Inactive''
      else ''One or both missing'')"

definition make_one_to_one_comment :: "cell \<Rightarrow> cell \<Rightarrow> cell \<Rightarrow> cell \<Rightarrow> nat \<Rightarrow> string" where
  "make_one_to_one_comment noel_t1 noel_t2 status_t1 status_t2 rownum =
     (if notna noel_t1 \<and> notna noel_t2
      then ''Row '' @ str_nat rownum @ '': T1 Noel='' @ py_str noel_t1 @ '', T2 Noel='' @ py_str noel_t2
             @ '', '' @ make_active_comment status_t1 status_t2
      else if notna noel_t1 \<and> isna noel_t2
      then ''Row '' @ str_nat rownum @ '': T1 Noel='' @ py_str noel_t1 @ '', T2 missing''
      else if isna noel_t1 \<and> notna noel_t2
      then ''Row '' @ str_nat rownum @ '': T2 Noel='' @ py_str noel_t2 @ '', T1 missing''
      else ''Row '' @ str_nat rownum @ '': both missing'')"

text \<open>
  \<open>check_missing_core\<close> and \<open>check_missing_noncore\<close> have the same body;
  \<open>block_dict.get(col_name, np.nan)\<close> is \<open>row_get\<close> with default \<open>Null\<close>.
\<close>

definition check_missing_core :: "row \<Rightarrow> string list \<Rightarrow> string list \<Rightarrow> string list \<times> string list" where
  "check_missing_core blockA_dict t1_core t2_core =
     (filter (\<lambda>c. isna (row_get blockA_dict (''Table1_'' @ c) Null)) t1_core,
      filter (\<lambda>c. isna (row_get blockA_dict (''Table2_'' @ c) Null)) t2_core)"

definition check_missing_noncore :: "row \<Rightarrow> string list \<Rightarrow> string list \<Rightarrow> string list \<times> string list" where
  "check_missing_noncore blockC_dict nc_t1 nc_t2 =
     (filter (\<lambda>c. isna (row_get blockC_dict (''Table1_'' @ c) Null)) nc_t1,
      filter (\<lambda>c. isna (row_get blockC_dict (''Table2_'' @ c) Null)) nc_t2)"

definition has_mismatch :: "row \<Rightarrow> string list \<Rightarrow> string list \<Rightarrow> string list" where
  "has_mismatch block_dict t1_list t2_list =
     filter (\<lambda>c. c \<in> set t2_list \<and>
                 (let val1 = row_get block_dict (''Table1_'' @ c) Null;
                      val2 = row_get block_dict (''Table2_'' @ c) Null
                  in notna val1 \<and> notna val2 \<and> py_strip (py_str val1) \<noteq> py_strip (py_str val2)))
            t1_list"

text \<open>
  \<open>for c in cols: d[prefix + c] = row[c] if (row is not None and c in row) else np.nan\<close>:
  a dictionary assignment replaces the value of a key already there, and the guarded read is
  \<open>side_get\<close>.
\<close>

definition fill_side :: "string \<Rightarrow> row option \<Rightarrow> row \<Rightarrow> string list \<Rightarrow> row" where
  "fill_side prefix ro d cols = foldl (\<lambda>d c. AList.update (prefix @ c) (side_get ro c) d) d cols"

text \<open>Block A of the loop body, with its three comments.\<close>

definition blockA9 :: "string list \<Rightarrow> string list \<Rightarrow> row option \<Rightarrow> row option \<Rightarrow> row" where
  "blockA9 core_t1 core_t2 row_t1 row_t2 =
     (let blockA = fill_side ''Table2_'' row_t2
                     (fill_side ''Table1_'' row_t1 [(''BLOC A'', Null)] core_t1) core_t2;
          missing = check_missing_core blockA core_t1 core_t2;
          missing_t1_cols = fst missing;
          missing_t2_cols = snd missing;
          mismatch_core = has_mismatch blockA core_t1 core_t2;
          a1 = (if missing_t1_cols \<noteq> [] \<or> missing_t2_cols \<noteq> [] then ''Missing Core Data''
                else if mismatch_core \<noteq> [] then ''GAP''
                else ''MATCH'');
          a2 = (if missing_t1_cols \<noteq> [] \<or> missing_t2_cols \<noteq> []
                then ''Table1 missing: '' @ py_join '', '' missing_t1_cols @ [CHR 0x0A]
                     @ ''Table2 missing: '' @ py_join '', '' missing_t2_cols
                else ''No missing in core'');
          a3 = (if mismatch_core \<noteq> [] then ''Mismatched columns: '' @ py_join '', '' mismatch_core
                else ''No mismatch'')
      in AList.update ''CommentA_3'' (Str a3)
           (AList.update ''CommentA_2'' (Str a2)
              (AList.update ''CommentA_1'' (Str a1) blockA)))"

text \<open>
  Block B: \<open>row_t1["Noel"]\<close>, \<open>row_t1["Land"]\<close> and \<open>row_t1["Status"]\<close> are read without
  a guard and raise \<open>KeyError\<close> when the row has no such label; \<open>i\<close> is the index of the
  pair in its group.
\<close>

definition side_status :: "row option \<Rightarrow> error + cell" where
  "side_status ro = (case ro of None \<Rightarrow> Inr (Str ''Missing'') | Some r \<Rightarrow> row_item r ''Status'')"

definition blockB9 :: "row option \<Rightarrow> row option \<Rightarrow> nat \<Rightarrow> error + row" where
  "blockB9 row_t1 row_t2 i =
     (case side_item row_t1 ''Noel'' of Inl e \<Rightarrow> Inl e | Inr noel_t1 \<Rightarrow>
     (case side_item row_t1 ''Land'' of Inl e \<Rightarrow> Inl e | Inr land_t1 \<Rightarrow>
     (case side_status row_t1 of Inl e \<Rightarrow> Inl e | Inr status_t1 \<Rightarrow>
     (case side_item row_t2 ''Noel'' of Inl e \<Rightarrow> Inl e | Inr noel_t2 \<Rightarrow>
     (case side_status row_t2 of Inl e \<Rightarrow> Inl e | Inr status_t2 \<Rightarrow>
        Inr [(''BLOC B'', Null),
             (''Noel(Table1)'', noel_t1),
             (''Land(Table1)'', land_t1),
             (''Noel(Table2)'', noel_t2),
             (''1-1 Comment'', Str (make_one_to_one_comment noel_t1 noel_t2 status_t1 status_t2 (i + 1))),
             (''Daytona(Table1)'', side_get row_t1 ''Daytona''),
             (''Daytona(Table2)'', side_get row_t2 ''Daytona''),
             (''Elastic (Table1)'', side_get row_t1 ''Elastic Daytona''),
             (''Elastic (Table2)'', side_get row_t2 ''Elastic Daytona''),
             (''ActiveComment'', Str (make_active_comment status_t1 status_t2))])))))"

text \<open>Block C of the loop body.\<close>

definition blockC9 :: "string list \<Rightarrow> string list \<Rightarrow> row option \<Rightarrow> row option \<Rightarrow> row" where
  "blockC9 noncore_t1 noncore_t2 row_t1 row_t2 =
     (let blockC = fill_side ''Table2_'' row_t2
                     (fill_side ''Table1_'' row_t1 [(''BLOC C'', Null)] noncore_t1) noncore_t2;
          missing = check_missing_noncore blockC noncore_t1 noncore_t2;
          missing_nc_t1 = fst missing;
          missing_nc_t2 = snd missing;
          mismatch_noncore = has_mismatch blockC noncore_t1 noncore_t2;
          c1 = (if missing_nc_t1 \<noteq> [] \<or> missing_nc_t2 \<noteq> [] then ''Missing Secondary Data''
                else if mismatch_noncore \<noteq> [] then ''GAP''
                else ''MATCH'');
          c2 = (if missing_nc_t1 \<noteq> [] \<or> missing_nc_t2 \<noteq> []
                then ''Table1 missing: '' @ py_join '', '' missing_nc_t1 @ [CHR 0x0A]
                     @ ''Table2 missing: '' @ py_join '', '' missing_nc_t2
                else ''No missing in non-core'');
          c3 = (if mismatch_noncore \<noteq> [] then ''Mismatched columns: '' @ py_join '', '' mismatch_noncore
                else ''No mismatch'')
      in AList.update ''CommentC_3'' (Str c3)
           (AList.update ''CommentC_2'' (Str c2)
              (AList.update ''CommentC_1'' (Str c1) blockC)))"

text \<open>
  One turn of the inner loop: the row appended to \<open>final_rows\<close>. The column lists are
  those of the tables as read, before the key and status columns are added.
\<close>

definition build_row9 ::
  "string list \<Rightarrow> string list \<Rightarrow> row option \<Rightarrow> row option \<Rightarrow> nat \<Rightarrow> error + row" where
  "build_row9 t1_cols t2_cols row_t1 row_t2 i =
     (let blockA = blockA9 (core_of t1_cols) (core_of t2_cols) row_t1 row_t2
      in case blockB9 row_t1 row_t2 i of Inl e \<Rightarrow> Inl e | Inr blockB \<Rightarrow>
         (let blockC = blockC9 (noncore_of t1_cols) (noncore_of t2_cols) row_t1 row_t2
          in Inr (dict_merge (dict_merge blockA blockB) blockC)))"

definition group_rows9 ::
  "string list \<Rightarrow> string list \<Rightarrow> table \<Rightarrow> table \<Rightarrow> string \<Rightarrow> error + row list" where
  "group_rows9 t1_cols t2_cols df1 df2 noel_first =
     (let subset_t1 = sub_rows df1 noel_first;
          subset_t2 = sub_rows df2 noel_first;
          pairs = aligned_pairs subset_t1 subset_t2
      in collect (map (\<lambda>i. build_row9 t1_cols t2_cols (fst (pairs ! i)) (snd (pairs ! i)) i)
                      [0 ..< length pairs]))"

definition compare9 :: "string list \<Rightarrow> string list \<Rightarrow> table \<Rightarrow> table \<Rightarrow> error + row list" where
  "compare9 t1_cols t2_cols df1 df2 =
     (case collect (map (group_rows9 t1_cols t2_cols df1 df2) (all_noels df1 df2)) of
        Inl e \<Rightarrow> Inl e | Inr gs \<Rightarrow> Inr (concat gs))"

definition main9 :: "(cell \<Rightarrow> int option) \<Rightarrow> int \<Rightarrow> table \<Rightarrow> table \<Rightarrow> error + row list" where
  "main9 to_datetime now t1 t2 =
     (case add_noel_columns t1 of Inl e \<Rightarrow> Inl e | Inr n1 \<Rightarrow>
       (case add_noel_columns t2 of Inl e \<Rightarrow> Inl e | Inr n2 \<Rightarrow>
          compare9 (columns t1) (columns t2)
            (add_status9 to_datetime now n1) (add_status9 to_datetime now n2)))"

section \<open>Sample tables\<close>

text \<open>
  Two small tables as the scripts read them, used to run the definitions: Table1 has the
  keys \<open>X\<close> and \<open>Z\<close> and a row without identifier, Table2 has the key \<open>X\<close> twice with
  the same suffix.
\<close>

definition sample_t1 :: table where
  "sample_t1 =
     \<lparr>columns = [''Noel'', ''Daytona'', ''Pizza'', ''Land''],
      rows = [[(''Noel'', Str ''X''), (''Daytona'', Str ''open''), (''Pizza'', Num 1), (''Land'', Str ''007'')],
              [(''Noel'', Null), (''Daytona'', Str ''open''), (''Pizza'', Num 2), (''Land'', Null)],
              [(''Noel'', Str ''Z''), (''Daytona'', Str ''open''), (''Pizza'', Null), (''Land'', Null)]]\<rparr>"

definition sample_t2 :: table where
  "sample_t2 =
     \<lparr>columns = [''Noel'', ''Daytona'', ''Pizza'', ''Right''],
      rows = [[(''Noel'', Str ''X_001''), (''Daytona'', Str ''Closed''), (''Pizza'', Str '' 1 ''), (''Right'', Str ''r'')],
              [(''Noel'', Str ''X_001''), (''Daytona'', Null), (''Pizza'', Null), (''Right'', Null)]]\<rparr>"

definition no_date :: "cell \<Rightarrow> int option" where
  "no_date v = None"

text \<open>
  The same tables after both scripts have added the key and status columns (with a clock
  and parser under which no date lies in the past).
\<close>

definition sample_df1 :: table where
  "sample_df1 =
     \<lparr>columns = [''Noel'', ''Daytona'', ''Pizza'', ''Land'', ''NoelFirst'', ''NoelSecond'', ''Status''],
      rows = [[(''Noel'', Str ''X''), (''Daytona'', Str ''open''), (''Pizza'', Num 1), (''Land'', Str ''007''),
               (''NoelFirst'', Str ''X''), (''NoelSecond'', Null), (''Status'', Str ''Active'')],
              [(''Noel'', Null), (''Daytona'', Str ''open''), (''Pizza'', Num 2), (''Land'', Null),
               (''NoelFirst'', Null), (''NoelSecond'', Null), (''Status'', Str ''Active'')],
              [(''Noel'', Str ''Z''), (''Daytona'', Str ''open''), (''Pizza'', Null), (''Land'', Null),
               (''NoelFirst'', Str ''Z''), (''NoelSecond'', Null), (''Status'', Str ''Active'')]]\<rparr>"

definition sample_df2 :: table where
  "sample_df2 =
     \<lparr>columns = [''Noel'', ''Daytona'', ''Pizza'', ''Right'', ''NoelFirst'', ''NoelSecond'', ''Status''],
      rows = [[(''Noel'', Str ''X_001''), (''Daytona'', Str ''Closed''), (''Pizza'', Str '' 1 ''),
               (''Right'', Str ''r''), (''NoelFirst'', Str ''X''), (''NoelSecond'', Str ''001''),
               (''Status'', Str ''Inactive'')],
              [(''Noel'', Str ''X_001''), (''Daytona'', Null), (''Pizza'', Null), (''Right'', Null),
               (''NoelFirst'', Str ''X''), (''NoelSecond'', Str ''001''), (''Status'', Str ''Active'')]]\<rparr>"

section \<open>Notions of the specification\<close>

text \<open>
  The distinct secondary keys among the Table2 records of a group, as the specification
  counts them: an absent secondary key is not a value.
\<close>

definition distinct_secondary_keys :: "table \<Rightarrow> string \<Rightarrow> cell list" where
  "distinct_secondary_keys df2 noel_first = remdups (filter notna (second_map_get df2 noel_first))"

text \<open>
  The outcome of comparing one field across a pair, in the words of the specification:
  both sides missing, one side missing, or both present with equal or unequal trimmed
  string forms.
\<close>

datatype field_outcome = BothMissing | MissingInA | MissingInB | Match | Mismatch

definition classify_field :: "cell \<Rightarrow> cell \<Rightarrow> field_outcome" where
  "classify_field a b =
     (if isna a \<and> isna b then BothMissing
      else if isna a then MissingInA
      else if isna b then MissingInB
      else if py_strip (py_str a) = py_strip (py_str b) then Match
      else Mismatch)"

text \<open>
  Further sample inputs: a sheet with a header and no row, a Table1 without the column
  \<open>Land\<close>, and a table whose only identifier is the empty string.
\<close>

text \<open>
  A table whose only record has its identifier and leaves the field \<open>Pizza\<close> empty;
  compared with itself, every field is equal or missing on both sides.
\<close>

definition pizza_t :: table where
  "pizza_t =
     \<lparr>columns = [''Noel'', ''Daytona'', ''Pizza'', ''Land''],
      rows = [[(''Noel'', Str ''X''), (''Daytona'', Str ''open''), (''Pizza'', Null), (''Land'', Str ''7'')]]\<rparr>"

definition pizza_row :: row where
  "pizza_row = [(''Noel'', Str ''X''), (''Daytona'', Str ''open''), (''Pizza'', Null), (''Land'', Str ''7''),
                (''NoelFirst'', Str ''X''), (''NoelSecond'', Null), (''Status'', Str ''Active'')]"

definition empty_t :: table where
  "empty_t = \<lparr>columns = [''Noel'', ''Daytona'', ''Land''], rows = []\<rparr>"

definition no_land_t :: table where
  "no_land_t = \<lparr>columns = [''Noel'', ''Daytona''],
                 rows = [[(''Noel'', Str ''X''), (''Daytona'', Str ''open'')]]\<rparr>"

definition empty_id_t :: table where
  "empty_id_t = \<lparr>columns = [''Noel'', ''Land''], rows = [[(''Noel'', Str []), (''Land'', Null)]]\<rparr>"

section \<open>Facts about the aligner\<close>

lemma collect_map_Inr: "collect (map Inr vs) = Inr vs"
  by (induction vs) auto

lemma collect_Inr_D: "collect xs = Inr vs \<Longrightarrow> xs = map Inr vs"
  by (induction xs arbitrary: vs) (auto split: sum.splits)

lemma collect_Inr_iff: "collect xs = Inr vs \<longleftrightarrow> xs = map Inr vs"
  using collect_map_Inr collect_Inr_D by blast

lemma map_Inr_lengths:
  "map f ks = map Inr gs \<Longrightarrow> (\<And>k g. f k = Inr g \<Longrightarrow> length g = h k) \<Longrightarrow> map length gs = map h ks"
proof (induction ks arbitrary: gs)
  case Nil
  then show ?case by simp
next
  case (Cons k ks)
  then obtain g gs' where gs: "gs = g # gs'" by (cases gs) auto
  with Cons.prems(1) have "f k = Inr g" "map f ks = map Inr gs'" by auto
  with Cons gs show ?case by auto
qed

lemma length_aligned_pairs: "length (aligned_pairs s1 s2) = max (length s1) (length s2)"
  by (simp add: aligned_pairs_def)

lemma nth_aligned_pairs:
  "i < max (length s1) (length s2) \<Longrightarrow>
   aligned_pairs s1 s2 ! i =
     (if i < length s1 then Some (s1 ! i) else None, if i < length s2 then Some (s2 ! i) else None)"
  by (simp add: aligned_pairs_def del: upt_Suc)

lemma group_rows21_Inr:
  assumes "group_rows21 df1 df2 k = Inr rs"
  shows "map (\<lambda>(row1, row2). build_rows21 row1 row2 (is_many_to_many df2 k))
           (aligned_pairs (sub_rows df1 k) (sub_rows df2 k)) = map Inr rs"
  using assms by (simp add: group_rows21_def collect_Inr_iff Let_def)

lemma group_rows21_length:
  assumes "group_rows21 df1 df2 k = Inr rs"
  shows "length rs = max (length (sub_rows df1 k)) (length (sub_rows df2 k))"
proof -
  have "length (map Inr rs :: (error + sheet_rows) list)
        = length (aligned_pairs (sub_rows df1 k) (sub_rows df2 k))"
    using group_rows21_Inr[OF assms, symmetric] by simp
  then show ?thesis by (simp add: length_aligned_pairs)
qed

lemma group_rows21_nth:
  assumes "group_rows21 df1 df2 k = Inr rs" and "i < length rs"
  shows "build_rows21 (if i < length (sub_rows df1 k) then Some (sub_rows df1 k ! i) else None)
           (if i < length (sub_rows df2 k) then Some (sub_rows df2 k ! i) else None)
           (is_many_to_many df2 k) = Inr (rs ! i)"
proof -
  let ?ps = "aligned_pairs (sub_rows df1 k) (sub_rows df2 k)"
  let ?f = "\<lambda>(row1, row2). build_rows21 row1 row2 (is_many_to_many df2 k)"
  have i: "i < max (length (sub_rows df1 k)) (length (sub_rows df2 k))"
    using assms group_rows21_length by simp
  have "map ?f ?ps ! i = map Inr rs ! i" using group_rows21_Inr[OF assms(1)] by simp
  then have "?f (?ps ! i) = Inr (rs ! i)"
    using i assms(2) by (simp add: length_aligned_pairs)
  then show ?thesis using i by (simp add: nth_aligned_pairs)
qed

lemma compare21_Inr:
  assumes "compare21 df1 df2 = Inr out"
  shows "\<exists>gs. map (group_rows21 df1 df2) (all_noels df1 df2) = map Inr gs \<and> out = concat gs"
  using assms by (auto simp: compare21_def collect_Inr_iff split: sum.splits)

lemma compare21_length:
  assumes "compare21 df1 df2 = Inr out"
  shows "length out =
         sum_list (map (\<lambda>k. max (length (sub_rows df1 k)) (length (sub_rows df2 k))) (all_noels df1 df2))"
proof -
  from compare21_Inr[OF assms] obtain gs where
    gs: "map (group_rows21 df1 df2) (all_noels df1 df2) = map Inr gs" and out: "out = concat gs"
    by blast
  have "map length gs =
        map (\<lambda>k. max (length (sub_rows df1 k)) (length (sub_rows df2 k))) (all_noels df1 df2)"
    by (rule map_Inr_lengths[OF gs]) (rule group_rows21_length)
  then show ?thesis by (simp add: out length_concat)
qed

lemma group_rows9_Inr:
  assumes "group_rows9 c1 c2 df1 df2 k = Inr rs"
  shows "map (\<lambda>i. build_row9 c1 c2
                  (fst (aligned_pairs (sub_rows df1 k) (sub_rows df2 k) ! i))
                  (snd (aligned_pairs (sub_rows df1 k) (sub_rows df2 k) ! i)) i)
           [0 ..< max (length (sub_rows df1 k)) (length (sub_rows df2 k))] = map Inr rs"
  using assms by (simp add: group_rows9_def collect_Inr_iff Let_def length_aligned_pairs)

lemma group_rows9_length:
  assumes "group_rows9 c1 c2 df1 df2 k = Inr rs"
  shows "length rs = max (length (sub_rows df1 k)) (length (sub_rows df2 k))"
proof -
  have "length (map Inr rs :: (error + row) list)
        = length [0 ..< max (length (sub_rows df1 k)) (length (sub_rows df2 k))]"
    using group_rows9_Inr[OF assms, symmetric] by simp
  then show ?thesis by simp
qed

lemma group_rows9_nth:
  assumes "group_rows9 c1 c2 df1 df2 k = Inr rs" and "i < length rs"
  shows "build_row9 c1 c2 (if i < length (sub_rows df1 k) then Some (sub_rows df1 k ! i) else None)
           (if i < length (sub_rows df2 k) then Some (sub_rows df2 k ! i) else None) i = Inr (rs ! i)"
proof -
  let ?ps = "aligned_pairs (sub_rows df1 k) (sub_rows df2 k)"
  let ?n = "max (length (sub_rows df1 k)) (length (sub_rows df2 k))"
  have i: "i < ?n" using assms group_rows9_length by simp
  have "map (\<lambda>i. build_row9 c1 c2 (fst (?ps ! i)) (snd (?ps ! i)) i) [0 ..< ?n] ! i = map Inr rs ! i"
    using group_rows9_Inr[OF assms(1)] by simp
  then have "build_row9 c1 c2 (fst (?ps ! i)) (snd (?ps ! i)) i = Inr (rs ! i)"
    using i assms(2) by (simp del: upt_Suc)
  then show ?thesis using i by (simp add: nth_aligned_pairs)
qed

lemma compare9_Inr:
  assumes "compare9 c1 c2 df1 df2 = Inr out"
  shows "\<exists>gs. map (group_rows9 c1 c2 df1 df2) (all_noels df1 df2) = map Inr gs \<and> out = concat gs"
  using assms by (auto simp: compare9_def collect_Inr_iff split: sum.splits)

lemma compare9_length:
  assumes "compare9 c1 c2 df1 df2 = Inr out"
  shows "length out =
         sum_list (map (\<lambda>k. max (length (sub_rows df1 k)) (length (sub_rows df2 k))) (all_noels df1 df2))"
proof -
  from compare9_Inr[OF assms] obtain gs where
    gs: "map (group_rows9 c1 c2 df1 df2) (all_noels df1 df2) = map Inr gs" and out: "out = concat gs"
    by blast
  have "map length gs =
        map (\<lambda>k. max (length (sub_rows df1 k)) (length (sub_rows df2 k))) (all_noels df1 df2)"
    by (rule map_Inr_lengths[OF gs]) (rule group_rows9_length)
  then show ?thesis by (simp add: out length_concat)
qed

lemma all_noels_set: "set (all_noels df1 df2) = set (noel_firsts df1) \<union> set (noel_firsts df2)"
  by (simp add: all_noels_def)

lemma dict_merge_Nil [simp]: "dict_merge d [] = d"
  by (simp add: dict_merge_def)

lemma dict_merge_Cons [simp]: "dict_merge d ((k, v) # kvs) = dict_merge (AList.update k v d) kvs"
  by (simp add: dict_merge_def)

lemma map_of_dict_merge_other:
  "k \<notin> fst ` set d2 \<Longrightarrow> map_of (dict_merge d1 d2) k = map_of d1 k"
  by (induction d2 arbitrary: d1) (auto simp: update_conv')

lemma map_of_dict_merge:
  "distinct (map fst d2) \<Longrightarrow> map_of (dict_merge d1 d2) = map_of d1 ++ map_of d2"
proof (induction d2 arbitrary: d1)
  case Nil
  then show ?case by simp
next
  case (Cons p d2)
  obtain k v where p: "p = (k, v)" by (cases p)
  from Cons.prems p have k: "k \<notin> fst ` set d2" and d: "distinct (map fst d2)" by auto
  from k have kn: "map_of d2 k = None" by (simp add: map_of_eq_None_iff)
  have "map_of (dict_merge d1 (p # d2)) = map_of (AList.update k v d1) ++ map_of d2"
    using Cons.IH[OF d] p by simp
  also have "\<dots> = (map_of d1)(k \<mapsto> v) ++ map_of d2"
    unfolding update_conv' ..
  also have "\<dots> = map_of d1 ++ map_of (p # d2)"
    using kn p by (auto simp: map_add_def fun_eq_iff split: option.splits)
  finally show ?case .
qed

lemma keys_build_block3:
  "map fst (build_block3 row2 cols) = ''BLOC 3'' # map (\<lambda>c. ''Table2_'' @ c) cols"
  by (cases row2) (simp_all add: build_block3_def comp_def)

lemma map_of_prefixed:
  "map_of (map (\<lambda>c. (p @ c, f c)) cols) (p @ c) = (if c \<in> set cols then Some (f c) else None)"
  by (induction cols) auto

lemma map_of_build_block3:
  "c \<in> set cols \<Longrightarrow> map_of (build_block3 row2 cols) (''Table2_'' @ c) = Some (side_get row2 c)"
  using map_of_prefixed[of "''Table2_''" "\<lambda>c. Null" cols c]
        map_of_prefixed[of "''Table2_''" "\<lambda>c. row_get (the row2) c Null" cols c]
  by (cases row2) (simp_all add: build_block3_def side_get_def)

lemma distinct_keys_block3: "distinct (map fst (build_block3 row2 block3_cols))"
  by (simp add: keys_build_block3 block3_cols_def)

lemma keys_build_block2:
  "map fst (build_block2 row1 row2) =
     ''BLOC 2'' # map (\<lambda>c. ''Table1_'' @ c) shared_cols @ map (\<lambda>c. ''Table2_'' @ c) shared_cols
       @ [''Comment1_B2'', ''Comment2_B2'', ''Comment3_B2'']"
  by (simp add: build_block2_def Let_def comp_def)

lemma Comment2_B1_not_in_block2: "''Comment2_B1'' \<notin> fst ` set (build_block2 row1 row2)"
proof -
  have "''Comment2_B1'' \<notin> set (map fst (build_block2 row1 row2))"
    unfolding keys_build_block2 by auto
  then show ?thesis by simp
qed

lemma Comment2_B1_not_in_block3: "''Comment2_B1'' \<notin> fst ` set (build_block3 row2 block3_cols)"
  by (cases row2) (auto simp: build_block3_def block3_cols_def)

lemma build_block1_many:
  "build_block1 row1 row2 True = Inr b1 \<Longrightarrow> map_of b1 ''Comment2_B1'' = Some (Str ''many-to-many'')"
  by (auto simp: build_block1_def Let_def split: sum.splits)

lemma build_rows21_many:
  assumes "build_rows21 row1 row2 True = Inr s"
  shows "map_of (block1 s) ''Comment2_B1'' = Some (Str ''many-to-many'') \<and>
         map_of (comparison s) ''Comment2_B1'' = Some (Str ''many-to-many'')"
proof -
  from assms obtain b1 where b1: "build_block1 row1 row2 True = Inr b1"
    and s: "s = \<lparr>block1 = b1, block2 = build_block2 row1 row2, block3 = build_block3 row2 block3_cols,
               comparison = dict_merge (dict_merge b1 (build_block2 row1 row2)) (build_block3 row2 block3_cols)\<rparr>"
    by (auto simp: build_rows21_def Let_def split: sum.splits)
  show ?thesis
    using build_block1_many[OF b1]
    by (simp add: s map_of_dict_merge_other Comment2_B1_not_in_block2 Comment2_B1_not_in_block3)
qed

lemma sample_enrichment:
  "add_noel_columns sample_t1 = Inr n1 \<Longrightarrow> add_noel_columns sample_t2 = Inr n2 \<Longrightarrow>
   add_status21 no_date 0 n1 = sample_df1 \<and> add_status21 no_date 0 n2 = sample_df2 \<and>
   add_status9 no_date 0 n1 = sample_df1 \<and> add_status9 no_date 0 n2 = sample_df2"
  by (auto simp: add_noel_columns_def sample_t1_def sample_t2_def add_status21_def add_status9_def
        sample_df1_def sample_df2_def add_noel_row_def split_noel_def row_get_def isna_def notna_def
        py_strip_def is_space_def set_column_def get_activity_status_def is_inactive_def
        py_lower_def lower_char_def no_date_def is_str_def)

section \<open>Facts about keys, strings and the merged row\<close>

lemma row_get_update:
  "row_get (AList.update k v r) k' d = (if k' = k then v else row_get r k' d)"
  by (simp add: row_get_def update_conv')

lemma split_noel_Null: "isna v \<Longrightarrow> split_noel v = (Null, Null)"
  by (simp add: split_noel_def)

lemma split_noel_fst_Str: "fst (split_noel v) = Str s \<Longrightarrow> notna v"
  by (auto simp: split_noel_def notna_def isna_def)

lemma add_noel_row_Noel: "row_get (add_noel_row r) ''Noel'' d = row_get r ''Noel'' d"
  by (simp add: add_noel_row_def Let_def row_get_update)

lemma add_noel_row_NoelFirst:
  "row_get (add_noel_row r) ''NoelFirst'' d = fst (split_noel (row_get r ''Noel'' Null))"
  by (simp add: add_noel_row_def Let_def row_get_update)

lemma rows_add_noel_columns:
  "add_noel_columns t = Inr n \<Longrightarrow> rows n = map add_noel_row (rows t)"
  by (auto simp: add_noel_columns_def split: if_splits)

lemma keyed_row_has_identifier:
  assumes "row_get (add_noel_row r0) ''NoelFirst'' Null = Str k"
  shows "notna (row_get (add_noel_row r0) ''Noel'' Null)"
  using assms split_noel_fst_Str[of "row_get r0 ''Noel'' Null" k]
  by (simp add: add_noel_row_Noel add_noel_row_NoelFirst)

lemma sub_rows_status21:
  assumes "add_noel_columns t = Inr n" and "r \<in> set (sub_rows (add_status21 td now n) k)"
  shows "notna (row_get r ''Noel'' Null)"
proof -
  from assms obtain r0 where
    r: "r = AList.update ''Status'' (Str (get_activity_status td now (add_noel_row r0))) (add_noel_row r0)"
    and k: "row_get r ''NoelFirst'' Null = Str k"
    by (auto simp: sub_rows_def add_status21_def rows_add_noel_columns)
  from k r have "row_get (add_noel_row r0) ''NoelFirst'' Null = Str k"
    by (simp add: row_get_update)
  from keyed_row_has_identifier[OF this] r show ?thesis by (simp add: row_get_update)
qed

lemma sub_rows_status9:
  assumes "add_noel_columns t = Inr n" and "r \<in> set (sub_rows (add_status9 td now n) k)"
  shows "notna (row_get r ''Noel'' Null)"
proof -
  from assms obtain r0 v where
    r: "r = AList.update ''Status'' v (add_noel_row r0)"
    and k: "row_get r ''NoelFirst'' Null = Str k"
    by (auto simp: sub_rows_def add_status9_def rows_add_noel_columns)
  from k r have "row_get (add_noel_row r0) ''NoelFirst'' Null = Str k"
    by (simp add: row_get_update)
  from keyed_row_has_identifier[OF this] r show ?thesis by (simp add: row_get_update)
qed

lemma aligned_pairs_sides:
  assumes "(a, b) \<in> set (aligned_pairs s1 s2)"
  shows "(a = None \<or> (\<exists>r \<in> set s1. a = Some r)) \<and> (b = None \<or> (\<exists>r \<in> set s2. b = Some r))"
proof -
  from assms obtain i where
    a: "a = (if i < length s1 then Some (s1 ! i) else None)" and
    b: "b = (if i < length s2 then Some (s2 ! i) else None)"
    by (auto simp: aligned_pairs_def)
  have "a = None \<or> (\<exists>r \<in> set s1. a = Some r)" using a nth_mem[of i s1] by (cases "i < length s1") auto
  moreover
  have "b = None \<or> (\<exists>r \<in> set s2. b = Some r)" using b nth_mem[of i s2] by (cases "i < length s2") auto
  ultimately show ?thesis ..
qed

lemma starts_with_iff: "starts_with sub s \<longleftrightarrow> (\<exists>ss. s = sub @ ss)"
  by (induction sub s rule: starts_with.induct) auto

lemma py_in_iff: "py_in sub s \<longleftrightarrow> (\<exists>ps ss. s = ps @ sub @ ss)"
proof (induction s)
  case Nil
  then show ?case by auto
next
  case (Cons c cs)
  have "(\<exists>ps ss. c # cs = ps @ sub @ ss) \<longleftrightarrow>
        (\<exists>ss. c # cs = sub @ ss) \<or> (\<exists>ps ss. cs = ps @ sub @ ss)"
  proof
    assume "\<exists>ps ss. c # cs = ps @ sub @ ss"
    then obtain ps ss where e: "c # cs = ps @ sub @ ss" by blast
    show "(\<exists>ss. c # cs = sub @ ss) \<or> (\<exists>ps ss. cs = ps @ sub @ ss)"
    proof (cases ps)
      case Nil
      with e show ?thesis by auto
    next
      case (Cons p ps')
      with e have "cs = ps' @ sub @ ss" by simp
      then show ?thesis by blast
    qed
  next
    assume "(\<exists>ss. c # cs = sub @ ss) \<or> (\<exists>ps ss. cs = ps @ sub @ ss)"
    then show "\<exists>ps ss. c # cs = ps @ sub @ ss"
    proof
      assume "\<exists>ss. c # cs = sub @ ss"
      then obtain ss where "c # cs = [] @ sub @ ss" by auto
      then show ?thesis by blast
    next
      assume "\<exists>ps ss. cs = ps @ sub @ ss"
      then obtain ps ss where "c # cs = (c # ps) @ sub @ ss" by auto
      then show ?thesis by blast
    qed
  qed
  with Cons show ?case by (simp add: starts_with_iff)
qed

lemma build_rows21_block3:
  assumes "build_rows21 a b m = Inr s"
  shows "block3 s = build_block3 b block3_cols"
    and "c \<in> set block3_cols \<Longrightarrow> map_of (comparison s) (''Table2_'' @ c) = Some (side_get b c)"
proof -
  from assms obtain b1 where
    s: "s = \<lparr>block1 = b1, block2 = build_block2 a b, block3 = build_block3 b block3_cols,
             comparison = dict_merge (dict_merge b1 (build_block2 a b)) (build_block3 b block3_cols)\<rparr>"
    by (auto simp: build_rows21_def Let_def split: sum.splits)
  show "block3 s = build_block3 b block3_cols" by (simp add: s)
  show "map_of (comparison s) (''Table2_'' @ c) = Some (side_get b c)" if "c \<in> set block3_cols"
    using that by (simp add: s map_of_dict_merge[OF distinct_keys_block3] map_of_build_block3
                      del: append_Cons)
qed

section \<open>Facts about the blocks\<close>

lemma map_of_prefixed_other:
  "(\<And>c. k \<noteq> p @ c) \<Longrightarrow> map_of (map (\<lambda>c. (p @ c, f c)) cols) k = None"
  by (induction cols) auto

lemma block2_get_t1:
  assumes "c \<in> set shared_cols"
  shows "row_get ([(''BLOC 2'', Null)]
            @ map (\<lambda>c. (''Table1_'' @ c, f1 c)) shared_cols
            @ map (\<lambda>c. (''Table2_'' @ c, f2 c)) shared_cols @ rest) (''Table1_'' @ c) Null = f1 c"
  using assms map_of_prefixed[of "''Table1_''" f1 shared_cols c]
  by (simp add: row_get_def map_add_def del: append_Cons split: option.splits)

lemma block2_get_t2:
  assumes "c \<in> set shared_cols"
  shows "row_get ([(''BLOC 2'', Null)]
            @ map (\<lambda>c. (''Table1_'' @ c, f1 c)) shared_cols
            @ map (\<lambda>c. (''Table2_'' @ c, f2 c)) shared_cols @ rest) (''Table2_'' @ c) Null = f2 c"
proof -
  have "map_of (map (\<lambda>c. (''Table1_'' @ c, f1 c)) shared_cols) (''Table2_'' @ c) = None"
    by (rule map_of_prefixed_other) simp
  then show ?thesis
    using assms map_of_prefixed[of "''Table2_''" f2 shared_cols c]
    by (simp add: row_get_def map_add_def del: append_Cons split: option.splits)
qed

lemma scan_col_flag:
  "fst (scan_col b st c) =
     (fst st \<or> (c \<noteq> ''Noel'' \<and>
        classify_field (row_get b (''Table1_'' @ c) Null) (row_get b (''Table2_'' @ c) Null)
          \<notin> {Match, BothMissing}))"
  by (auto simp: scan_col_def Let_def classify_field_def safe_str_def notna_def isna_def
           simp del: append_Cons)

lemma foldl_scan_flag:
  "fst (foldl (scan_col b) st cols) =
     (fst st \<or> (\<exists>c \<in> set cols. c \<noteq> ''Noel'' \<and>
        classify_field (row_get b (''Table1_'' @ c) Null) (row_get b (''Table2_'' @ c) Null)
          \<notin> {Match, BothMissing}))"
  by (induction cols arbitrary: st) (auto simp: scan_col_flag simp del: append_Cons)

lemma Noel_shared: "''Noel'' \<in> set shared_cols"
  by (simp add: shared_cols_def)

lemma map_of_append_new:
  "k \<notin> fst ` set xs \<Longrightarrow> map_of (xs @ ys) k = map_of ys k"
  by (simp add: map_add_def map_of_eq_None_iff[symmetric] split: option.splits)

lemma build_block2_shape:
  "\<exists>base c3.
     build_block2 row1 row2 =
       base @ [(''Comment2_B2'',
                Str (if isna (side_get row1 ''Noel'') \<or> isna (side_get row2 ''Noel'') then ''N/A''
                     else if \<exists>c \<in> set shared_cols. c \<noteq> ''Noel'' \<and>
                               classify_field (side_get row1 c) (side_get row2 c) \<notin> {Match, BothMissing}
                     then ''shared dimensions GAP''
                     else ''shared dimensions MATCH'')),
               (''Comment3_B2'',
                Str (if isna (side_get row1 ''Noel'') \<or> isna (side_get row2 ''Noel'') then ''N/A''
                     else c3))] \<and>
     ''Comment2_B2'' \<notin> fst ` set base \<and> ''Comment3_B2'' \<notin> fst ` set base"
proof -
  let ?b2 = "[(''BLOC 2'', Null)]
             @ map (\<lambda>c. (''Table1_'' @ c, side_get row1 c)) shared_cols
             @ map (\<lambda>c. (''Table2_'' @ c, side_get row2 c)) shared_cols"
  let ?P = "isna (side_get row1 ''Noel'') \<or> isna (side_get row2 ''Noel'')"
  have n1: "row_get ?b2 ''Table1_Noel'' Null = side_get row1 ''Noel''"
    using block2_get_t1[OF Noel_shared, of "side_get row1" "side_get row2" "[]"] by simp
  have n2: "row_get ?b2 ''Table2_Noel'' Null = side_get row2 ''Noel''"
    using block2_get_t2[OF Noel_shared, of "side_get row1" "side_get row2" "[]"] by simp
  have f: "fst (foldl (scan_col (?b2 @ rest)) (False, []) shared_cols) =
           (\<exists>c \<in> set shared_cols. c \<noteq> ''Noel'' \<and>
              classify_field (side_get row1 c) (side_get row2 c) \<notin> {Match, BothMissing})" for rest
    using block2_get_t1[of _ "side_get row1" "side_get row2" rest]
          block2_get_t2[of _ "side_get row1" "side_get row2" rest]
    by (simp add: foldl_scan_flag del: append_Cons cong: rev_conj_cong bex_cong)
  define c1 where "c1 =
     (if isna (side_get row1 ''Noel'') \<and> notna (side_get row2 ''Noel'') then ''Missing in Table1''
      else if notna (side_get row1 ''Noel'') \<and> isna (side_get row2 ''Noel'') then ''Missing in Table2''
      else if isna (side_get row1 ''Noel'') \<and> isna (side_get row2 ''Noel'') then ''No Noel in both?''
      else ''Both present'')"
  define b2c where "b2c = ?b2 @ [(''Comment1_B2'', Str c1)]"
  define st where "st = foldl (scan_col b2c) (False, []) shared_cols"
  define c3 where "c3 =
     (if fst st then (if snd st \<noteq> [] then ''Diff columns: '' @ py_join '', '' (snd st)
                      else ''Diff columns: ???'')
      else ''No differences'')"
  have unf: "build_block2 row1 row2 =
     (if ?P then b2c @ [(''Comment2_B2'', Str ''N/A''), (''Comment3_B2'', Str ''N/A'')]
      else if fst st
           then b2c @ [(''Comment2_B2'', Str ''shared dimensions GAP''),
                       (''Comment3_B2'',
                          Str (if snd st \<noteq> [] then ''Diff columns: '' @ py_join '', '' (snd st)
                               else ''Diff columns: ???''))]
           else b2c @ [(''Comment2_B2'', Str ''shared dimensions MATCH''),
                       (''Comment3_B2'', Str ''No differences'')])"
    unfolding build_block2_def Let_def n1 n2 b2c_def c1_def st_def by (rule refl)
  have fs: "fst st = (\<exists>c \<in> set shared_cols. c \<noteq> ''Noel'' \<and>
              classify_field (side_get row1 c) (side_get row2 c) \<notin> {Match, BothMissing})"
    unfolding st_def b2c_def by (rule f)
  have k: "''Comment2_B2'' \<notin> fst ` set b2c" "''Comment3_B2'' \<notin> fst ` set b2c"
    unfolding b2c_def by auto
  have "build_block2 row1 row2 =
       b2c @ [(''Comment2_B2'',
                Str (if ?P then ''N/A''
                     else if \<exists>c \<in> set shared_cols. c \<noteq> ''Noel'' \<and>
                               classify_field (side_get row1 c) (side_get row2 c) \<notin> {Match, BothMissing}
                     then ''shared dimensions GAP''
                     else ''shared dimensions MATCH'')),
               (''Comment3_B2'', Str (if ?P then ''N/A'' else c3))]"
    unfolding unf fs[symmetric] c3_def by (cases ?P; cases "fst st") simp_all
  with k show ?thesis by blast
qed

lemma block2_Comment2:
  "map_of (build_block2 row1 row2) ''Comment2_B2'' =
     Some (Str (if isna (side_get row1 ''Noel'') \<or> isna (side_get row2 ''Noel'') then ''N/A''
                else if \<exists>c \<in> set shared_cols. c \<noteq> ''Noel'' \<and>
                          classify_field (side_get row1 c) (side_get row2 c) \<notin> {Match, BothMissing}
                then ''shared dimensions GAP''
                else ''shared dimensions MATCH''))"
proof -
  from build_block2_shape[of row1 row2] obtain base x y where
    b: "build_block2 row1 row2 = base @ [(''Comment2_B2'', Str x), (''Comment3_B2'', y)]"
    and x: "x = (if isna (side_get row1 ''Noel'') \<or> isna (side_get row2 ''Noel'') then ''N/A''
                else if \<exists>c \<in> set shared_cols. c \<noteq> ''Noel'' \<and>
                          classify_field (side_get row1 c) (side_get row2 c) \<notin> {Match, BothMissing}
                then ''shared dimensions GAP''
                else ''shared dimensions MATCH'')"
    and k: "''Comment2_B2'' \<notin> fst ` set base"
    by blast
  have "map_of (build_block2 row1 row2) ''Comment2_B2''
        = map_of [(''Comment2_B2'', Str x), (''Comment3_B2'', y)] ''Comment2_B2''"
    unfolding b by (rule map_of_append_new[OF k])
  then show ?thesis unfolding x by simp
qed

lemma block2_Comment3_NA:
  assumes "isna (side_get row1 ''Noel'') \<or> isna (side_get row2 ''Noel'')"
  shows "map_of (build_block2 row1 row2) ''Comment3_B2'' = Some (Str ''N/A'')"
proof -
  from build_block2_shape[of row1 row2] assms obtain base x where
    b: "build_block2 row1 row2 = base @ [(''Comment2_B2'', x), (''Comment3_B2'', Str ''N/A'')]"
    and k: "''Comment3_B2'' \<notin> fst ` set base"
    by auto
  have "map_of (build_block2 row1 row2) ''Comment3_B2''
        = map_of [(''Comment2_B2'', x), (''Comment3_B2'', Str ''N/A'')] ''Comment3_B2''"
    unfolding b by (rule map_of_append_new[OF k])
  then show ?thesis by simp
qed

lemma map_of_fill_side_same:
  "map_of (fill_side p ro d cols) (p @ c) =
     (if c \<in> set cols then Some (side_get ro c) else map_of d (p @ c))"
  unfolding fill_side_def
  by (induction cols arbitrary: d) (auto simp: update_conv')

lemma map_of_fill_side_other:
  "(\<And>c. k \<noteq> p @ c) \<Longrightarrow> map_of (fill_side p ro d cols) k = map_of d k"
  unfolding fill_side_def
  by (induction cols arbitrary: d) (auto simp: update_conv')

lemma keys_fill_side:
  "fst ` set (fill_side p ro d cols) = fst ` set d \<union> (\<lambda>c. p @ c) ` set cols"
  unfolding fill_side_def
  by (induction cols arbitrary: d) (auto simp: dom_update)

lemma blockA_get_t1:
  "c \<in> set core_t1 \<Longrightarrow>
   row_get (fill_side ''Table2_'' row_t2 (fill_side ''Table1_'' row_t1 d core_t1) core_t2)
     (''Table1_'' @ c) Null = side_get row_t1 c"
proof -
  assume c: "c \<in> set core_t1"
  have "map_of (fill_side ''Table2_'' row_t2 (fill_side ''Table1_'' row_t1 d core_t1) core_t2)
          (''Table1_'' @ c) = map_of (fill_side ''Table1_'' row_t1 d core_t1) (''Table1_'' @ c)"
    by (rule map_of_fill_side_other) simp
  then show ?thesis using c unfolding row_get_def map_of_fill_side_same by simp
qed

lemma blockA_get_t2:
  "c \<in> set core_t2 \<Longrightarrow>
   row_get (fill_side ''Table2_'' row_t2 d' core_t2) (''Table2_'' @ c) Null = side_get row_t2 c"
  unfolding row_get_def map_of_fill_side_same by simp

lemma check_missing_core_blockA:
  "check_missing_core (fill_side ''Table2_'' row_t2 (fill_side ''Table1_'' row_t1 d core_t1) core_t2)
     core_t1 core_t2 =
   (filter (\<lambda>c. isna (side_get row_t1 c)) core_t1, filter (\<lambda>c. isna (side_get row_t2 c)) core_t2)"
  unfolding check_missing_core_def
  by (simp add: blockA_get_t1 blockA_get_t2 del: append_Cons cong: filter_cong)

lemma has_mismatch_blockA:
  "has_mismatch (fill_side ''Table2_'' row_t2 (fill_side ''Table1_'' row_t1 d core_t1) core_t2)
     core_t1 core_t2 =
   filter (\<lambda>c. c \<in> set core_t2 \<and> notna (side_get row_t1 c) \<and> notna (side_get row_t2 c) \<and>
               py_strip (py_str (side_get row_t1 c)) \<noteq> py_strip (py_str (side_get row_t2 c))) core_t1"
  unfolding has_mismatch_def Let_def
  by (rule filter_cong) (auto simp: blockA_get_t1 blockA_get_t2 simp del: append_Cons)

lemma blockA9_comments:
  "map_of (blockA9 core_t1 core_t2 row_t1 row_t2) ''CommentA_1'' =
     Some (Str (if filter (\<lambda>c. isna (side_get row_t1 c)) core_t1 \<noteq> [] \<or>
                   filter (\<lambda>c. isna (side_get row_t2 c)) core_t2 \<noteq> [] then ''Missing Core Data''
                else if filter (\<lambda>c. c \<in> set core_t2 \<and> notna (side_get row_t1 c) \<and>
                                  notna (side_get row_t2 c) \<and>
                                  py_strip (py_str (side_get row_t1 c))
                                    \<noteq> py_strip (py_str (side_get row_t2 c))) core_t1 \<noteq> []
                then ''GAP'' else ''MATCH''))"
  "map_of (blockA9 core_t1 core_t2 row_t1 row_t2) ''CommentA_3'' =
     Some (Str (if filter (\<lambda>c. c \<in> set core_t2 \<and> notna (side_get row_t1 c) \<and>
                                  notna (side_get row_t2 c) \<and>
                                  py_strip (py_str (side_get row_t1 c))
                                    \<noteq> py_strip (py_str (side_get row_t2 c))) core_t1 \<noteq> []
                then ''Mismatched columns: '' @ py_join '', ''
                       (filter (\<lambda>c. c \<in> set core_t2 \<and> notna (side_get row_t1 c) \<and>
                                  notna (side_get row_t2 c) \<and>
                                  py_strip (py_str (side_get row_t1 c))
                                    \<noteq> py_strip (py_str (side_get row_t2 c))) core_t1)
                else ''No mismatch''))"
  unfolding blockA9_def Let_def check_missing_core_blockA has_mismatch_blockA
  by (simp_all add: update_conv' del: append_Cons)

lemma keys_blockB9:
  "blockB9 row_t1 row_t2 i = Inr bb \<Longrightarrow>
   map fst bb = [''BLOC B'', ''Noel(Table1)'', ''Land(Table1)'', ''Noel(Table2)'', ''1-1 Comment'',
                 ''Daytona(Table1)'', ''Daytona(Table2)'', ''Elastic (Table1)'', ''Elastic (Table2)'',
                 ''ActiveComment'']"
  by (auto simp: blockB9_def split: sum.splits)

lemma keys_blockC9:
  "fst ` set (blockC9 nc1 nc2 row_t1 row_t2) =
     {''BLOC C'', ''CommentC_1'', ''CommentC_2'', ''CommentC_3''}
       \<union> (\<lambda>c. ''Table1_'' @ c) ` set nc1 \<union> (\<lambda>c. ''Table2_'' @ c) ` set nc2"
  unfolding blockC9_def Let_def by (simp add: dom_update keys_fill_side del: append_Cons)

lemma build_row9_Inr:
  assumes "build_row9 t1_cols t2_cols row_t1 row_t2 i = Inr row"
  shows "\<exists>bb. blockB9 row_t1 row_t2 i = Inr bb \<and>
              row = dict_merge (dict_merge (blockA9 (core_of t1_cols) (core_of t2_cols) row_t1 row_t2) bb)
                      (blockC9 (noncore_of t1_cols) (noncore_of t2_cols) row_t1 row_t2)"
  using assms by (auto simp: build_row9_def Let_def split: sum.splits)

lemma build_row9_blockA_comment:
  assumes "build_row9 t1_cols t2_cols row_t1 row_t2 i = Inr row"
    and "k = ''CommentA_1'' \<or> k = ''CommentA_2'' \<or> k = ''CommentA_3''"
  shows "map_of row k = map_of (blockA9 (core_of t1_cols) (core_of t2_cols) row_t1 row_t2) k"
proof -
  from build_row9_Inr[OF assms(1)] obtain bb where
    bb: "blockB9 row_t1 row_t2 i = Inr bb" and
    row: "row = dict_merge (dict_merge (blockA9 (core_of t1_cols) (core_of t2_cols) row_t1 row_t2) bb)
                      (blockC9 (noncore_of t1_cols) (noncore_of t2_cols) row_t1 row_t2)"
    by blast
  have "k \<notin> set (map fst bb)" using assms(2) unfolding keys_blockB9[OF bb] by auto
  then have 1: "k \<notin> fst ` set bb" by simp
  have 2: "k \<notin> fst ` set (blockC9 (noncore_of t1_cols) (noncore_of t2_cols) row_t1 row_t2)"
    using assms(2) unfolding keys_blockC9 by auto
  show ?thesis unfolding row by (simp add: map_of_dict_merge_other 1 2)
qed

lemma build_row9_blockB_comment:
  assumes "build_row9 t1_cols t2_cols row_t1 row_t2 i = Inr row"
    and "blockB9 row_t1 row_t2 i = Inr bb"
    and "k = ''1-1 Comment'' \<or> k = ''ActiveComment''"
  shows "map_of row k = map_of bb k"
proof -
  from build_row9_Inr[OF assms(1)] assms(2) have
    row: "row = dict_merge (dict_merge (blockA9 (core_of t1_cols) (core_of t2_cols) row_t1 row_t2) bb)
                      (blockC9 (noncore_of t1_cols) (noncore_of t2_cols) row_t1 row_t2)"
    by auto
  have d: "distinct (map fst bb)" unfolding keys_blockB9[OF assms(2)] by simp
  have "k \<in> set (map fst bb)" using assms(3) unfolding keys_blockB9[OF assms(2)] by auto
  then have "map_of bb k \<noteq> None" by (simp add: map_of_eq_None_iff)
  then obtain v where v: "map_of bb k = Some v" by blast
  have 2: "k \<notin> fst ` set (blockC9 (noncore_of t1_cols) (noncore_of t2_cols) row_t1 row_t2)"
    using assms(3) unfolding keys_blockC9 by auto
  show ?thesis unfolding row
    by (simp add: map_of_dict_merge_other[OF 2] map_of_dict_merge[OF d] map_add_def v)
qed

lemma outcome_cases:
  "classify_field a b \<notin> {Match, BothMissing} \<longleftrightarrow> classify_field a b \<in> {Mismatch, MissingInA, MissingInB}"
  by (cases "classify_field a b") auto

lemma Noel_in_core:
  "add_noel_columns t = Inr n \<Longrightarrow> ''Noel'' \<in> set (core_of (columns t))"
  by (auto simp: add_noel_columns_def core_of_def core_columns_def split: if_splits)

lemma side_get_None [simp]: "side_get None c = Null"
  by (simp add: side_get_def)

lemma blockA9_side_absent:
  assumes "row_t1 = None \<or> row_t2 = None" and "''Noel'' \<in> set core_t1" and "''Noel'' \<in> set core_t2"
  shows "map_of (blockA9 core_t1 core_t2 row_t1 row_t2) ''CommentA_1'' = Some (Str ''Missing Core Data'')"
    and "map_of (blockA9 core_t1 core_t2 row_t1 row_t2) ''CommentA_3'' = Some (Str ''No mismatch'')"
proof -
  have m: "filter (\<lambda>c. isna (side_get row_t1 c)) core_t1 \<noteq> [] \<or>
           filter (\<lambda>c. isna (side_get row_t2 c)) core_t2 \<noteq> []"
    using assms by (auto simp: filter_empty_conv isna_def)
  have h: "filter (\<lambda>c. c \<in> set core_t2 \<and> notna (side_get row_t1 c) \<and> notna (side_get row_t2 c) \<and>
                        py_strip (py_str (side_get row_t1 c)) \<noteq> py_strip (py_str (side_get row_t2 c)))
             core_t1 = []"
    using assms(1) by (auto simp: filter_empty_conv notna_def)
  show "map_of (blockA9 core_t1 core_t2 row_t1 row_t2) ''CommentA_1'' = Some (Str ''Missing Core Data'')"
    unfolding blockA9_comments using m by simp
  show "map_of (blockA9 core_t1 core_t2 row_t1 row_t2) ''CommentA_3'' = Some (Str ''No mismatch'')"
    unfolding blockA9_comments h by simp
qed

lemma pair9_identity_missing:
  assumes "add_noel_columns t1 = Inr n1" and "add_noel_columns t2 = Inr n2"
    and "(a, b) \<in> set (aligned_pairs (sub_rows (add_status9 td now n1) k)
                                      (sub_rows (add_status9 td now n2) k))"
    and "isna (side_get a ''Noel'') \<or> isna (side_get b ''Noel'')"
  shows "a = None \<or> b = None"
proof -
  from aligned_pairs_sides[OF assms(3)] sub_rows_status9[OF assms(1)] sub_rows_status9[OF assms(2)]
  have "(a = None \<or> notna (side_get a ''Noel'')) \<and> (b = None \<or> notna (side_get b ''Noel''))"
    by (auto simp: side_get_def)
  with assms(4) show ?thesis by (auto simp: notna_def isna_def)
qed

lemma status_values21: "get_activity_status td now r \<in> {''Active'', ''Inactive''}"
  by (simp add: get_activity_status_def Let_def)

lemma row_get_has: "row_get r c Null \<noteq> Null \<Longrightarrow> \<exists>v. map_of r c = Some v"
  by (cases "map_of r c") (auto simp: row_get_def)

lemma group_member21:
  assumes "add_noel_columns t = Inr n" and "r \<in> set (sub_rows (add_status21 td now n) k)"
  shows "\<exists>v st. map_of r ''Noel'' = Some v \<and> v \<noteq> Null \<and> row_get r ''Noel'' Null = v \<and>
                 row_get r ''Status'' Null = Str st \<and> st \<in> {''Active'', ''Inactive''}"
proof -
  from sub_rows_status21[OF assms] have n: "row_get r ''Noel'' Null \<noteq> Null" by (simp add: notna_def)
  from row_get_has[OF n] obtain v where v: "map_of r ''Noel'' = Some v" by blast
  from assms(2) obtain r' where "r = AList.update ''Status'' (Str (get_activity_status td now r')) r'"
    by (auto simp: sub_rows_def add_status21_def)
  then have "row_get r ''Status'' Null = Str (get_activity_status td now r')"
    by (simp add: row_get_update)
  with v n status_values21[of td now r'] show ?thesis by (auto simp: row_get_def)
qed

lemma group_member9:
  assumes "add_noel_columns t = Inr n" and "r \<in> set (sub_rows (add_status9 td now n) k)"
  shows "\<exists>v st. map_of r ''Noel'' = Some v \<and> v \<noteq> Null \<and> row_get r ''Noel'' Null = v \<and>
                 map_of r ''Status'' = Some (Str st) \<and> st \<in> {''Active'', ''Inactive''}"
proof -
  from sub_rows_status9[OF assms] have n: "row_get r ''Noel'' Null \<noteq> Null" by (simp add: notna_def)
  from row_get_has[OF n] obtain v where v: "map_of r ''Noel'' = Some v" by blast
  from assms(2) obtain r' st where "r = AList.update ''Status'' (Str st) r'" "st \<in> {''Active'', ''Inactive''}"
    by (auto simp: sub_rows_def add_status9_def)
  then have "map_of r ''Status'' = Some (Str st) \<and> st \<in> {''Active'', ''Inactive''}"
    by (simp add: update_conv')
  with v n show ?thesis by (auto simp: row_get_def)
qed

lemma build_block1_only_A:
  assumes "map_of r1 ''Noel'' = Some v" and "row_get r1 ''Status'' Null = Str st"
  shows "\<exists>b1. build_block1 (Some r1) None False = Inr b1 \<and>
              map_of b1 ''Comment2_B1'' = Some (Str ''missing in Table2'') \<and>
              map_of b1 ''Table2_Status'' = Some Null \<and>
              map_of b1 ''Comment1_B1'' = Some (Str (''Table1 '' @ st))"
  using assms
  by (simp add: build_block1_def side_item_def row_item_def side_get_def Let_def isna_def
           del: append_Cons)

lemma str_nat_1: "str_nat (Suc 0) = ''1''"
  by (simp add: str_nat.simps[of "Suc 0"] digit_char_def)

lemma blockB9_only_A:
  assumes "map_of r1 ''Noel'' = Some v" and "v \<noteq> Null" and "map_of r1 ''Land'' = Some l"
    and "map_of r1 ''Status'' = Some (Str st)"
  shows "\<exists>bb. blockB9 (Some r1) None 0 = Inr bb \<and>
              map_of bb ''ActiveComment'' = Some (Str ''One or both missing'') \<and>
              map_of bb ''1-1 Comment'' = Some (Str (''Row 1: T1 Noel='' @ py_str v @ '', T2 missing''))"
  using assms
  by (simp add: blockB9_def side_item_def row_item_def side_status_def make_active_comment_def
        make_one_to_one_comment_def notna_def isna_def str_nat_1)

lemma aligned_pairs_only_A: "aligned_pairs [r1] [] = [(Some r1, None)]"
  by (simp add: aligned_pairs_def)

section \<open>The claims\<close>

text \<open>
  C1. The specification flags a group many-to-many exactly when its Table2 records carry
  two or more distinct secondary keys. The script counts the Table2 records of the group
  instead: two records with the same suffix \<open>X_001\<close> are flagged, though they share one
  secondary key. What holds: a group is flagged exactly when it has two or more Table2
  records.
\<close>

theorem C1_flag_counts_records:
  "is_many_to_many df2 k \<longleftrightarrow> 2 \<le> length (sub_rows df2 k)"
  by (auto simp: is_many_to_many_def second_map_get_def)

theorem C1_same_secondary_key_flagged:
  "is_many_to_many sample_df2 ''X'' \<and>
   second_map_get sample_df2 ''X'' = [Str ''001'', Str ''001''] \<and>
   distinct_secondary_keys sample_df2 ''X'' = [Str ''001''] \<and>
   \<not> (is_many_to_many sample_df2 ''X'' \<longleftrightarrow> 2 \<le> length (distinct_secondary_keys sample_df2 ''X''))"
  by (simp add: is_many_to_many_def second_map_get_def distinct_secondary_keys_def sub_rows_def
        sample_df2_def row_get_def notna_def)

text \<open>
  C2. For every key the aligner pairs the Table1 and Table2 records of the group by
  position: \<open>max nA nB\<close> pairs, pair \<open>i\<close> holding the \<open>i\<close>-th record of each side or
  nothing beyond its end. Each script turns every pair into one output row, in order, so
  that a run that returns has as many rows as the sum of \<open>max nA nB\<close> over the sorted keys.
\<close>

theorem C2_pairing_completeness:
  "length (aligned_pairs (sub_rows df1 k) (sub_rows df2 k))
     = max (length (sub_rows df1 k)) (length (sub_rows df2 k)) \<and>
   (\<forall>i < max (length (sub_rows df1 k)) (length (sub_rows df2 k)).
      aligned_pairs (sub_rows df1 k) (sub_rows df2 k) ! i =
        (if i < length (sub_rows df1 k) then Some (sub_rows df1 k ! i) else None,
         if i < length (sub_rows df2 k) then Some (sub_rows df2 k ! i) else None)) \<and>
   (\<forall>rs. group_rows21 df1 df2 k = Inr rs \<longrightarrow>
      length rs = max (length (sub_rows df1 k)) (length (sub_rows df2 k)) \<and>
      (\<forall>i < length rs.
         build_rows21 (if i < length (sub_rows df1 k) then Some (sub_rows df1 k ! i) else None)
           (if i < length (sub_rows df2 k) then Some (sub_rows df2 k ! i) else None)
           (is_many_to_many df2 k) = Inr (rs ! i))) \<and>
   (\<forall>out. compare21 df1 df2 = Inr out \<longrightarrow>
      length out = sum_list (map (\<lambda>k. max (length (sub_rows df1 k)) (length (sub_rows df2 k)))
                               (all_noels df1 df2))) \<and>
   (\<forall>rs. group_rows9 c1 c2 df1 df2 k = Inr rs \<longrightarrow>
      length rs = max (length (sub_rows df1 k)) (length (sub_rows df2 k)) \<and>
      (\<forall>i < length rs.
         build_row9 c1 c2 (if i < length (sub_rows df1 k) then Some (sub_rows df1 k ! i) else None)
           (if i < length (sub_rows df2 k) then Some (sub_rows df2 k ! i) else None) i
         = Inr (rs ! i))) \<and>
   (\<forall>out. compare9 c1 c2 df1 df2 = Inr out \<longrightarrow>
      length out = sum_list (map (\<lambda>k. max (length (sub_rows df1 k)) (length (sub_rows df2 k)))
                               (all_noels df1 df2)))"
  using length_aligned_pairs nth_aligned_pairs group_rows21_length group_rows21_nth
    compare21_length group_rows9_length group_rows9_nth compare9_length
  by (intro conjI allI impI) blast+

theorem C2_pairing_completeness_witness:
  "\<not> isl (group_rows21 sample_df1 sample_df2 ''X'') \<and>
   length (projr (group_rows21 sample_df1 sample_df2 ''X'')) = 2 \<and>
   \<not> isl (compare21 sample_df1 sample_df2) \<and>
   length (projr (compare21 sample_df1 sample_df2)) = 3 \<and>
   \<not> isl (group_rows9 (columns sample_t1) (columns sample_t2) sample_df1 sample_df2 ''X'') \<and>
   length (projr (group_rows9 (columns sample_t1) (columns sample_t2) sample_df1 sample_df2 ''X'')) = 2 \<and>
   \<not> isl (compare9 (columns sample_t1) (columns sample_t2) sample_df1 sample_df2) \<and>
   length (projr (compare9 (columns sample_t1) (columns sample_t2) sample_df1 sample_df2)) = 3 \<and>
   aligned_pairs (sub_rows sample_df1 ''X'') (sub_rows sample_df2 ''X'') ! 1
     = (None, Some (rows sample_df2 ! 1))"
proof -
  let ?c1 = "columns sample_t1" and ?c2 = "columns sample_t2"
  have g21: "\<not> isl (group_rows21 sample_df1 sample_df2 ''X'')" by code_simp
  have c21: "\<not> isl (compare21 sample_df1 sample_df2)" by code_simp
  have g9: "\<not> isl (group_rows9 ?c1 ?c2 sample_df1 sample_df2 ''X'')" by code_simp
  have c9: "\<not> isl (compare9 ?c1 ?c2 sample_df1 sample_df2)" by code_simp
  have n: "length (sub_rows sample_df1 ''X'') = 1" "length (sub_rows sample_df2 ''X'') = 2"
    "sub_rows sample_df2 ''X'' ! 1 = rows sample_df2 ! 1"
    by code_simp+
  have s: "sum_list (map (\<lambda>k. max (length (sub_rows sample_df1 k)) (length (sub_rows sample_df2 k)))
                       (all_noels sample_df1 sample_df2)) = 3"
    by code_simp
  from g21 c21 g9 c9 n s C2_pairing_completeness[of sample_df1 "''X''" sample_df2 ?c1 ?c2]
  show ?thesis by (auto simp: isl_def)
qed

text \<open>
  C3. When the many-to-many flag is set, \<open>build_block1\<close> writes the fixed comment
  \<open>many-to-many\<close> whatever the two sides are; so every row of a flagged group carries
  it, in the BLOC 1 sheet and in the Comparison sheet.
\<close>

theorem C3_many_to_many_override:
  "(\<forall>b1. build_block1 row1 row2 True = Inr b1 \<longrightarrow>
      map_of b1 ''Comment2_B1'' = Some (Str ''many-to-many'')) \<and>
   (\<forall>rs. is_many_to_many df2 k \<and> group_rows21 df1 df2 k = Inr rs \<longrightarrow>
      (\<forall>r \<in> set rs. map_of (block1 r) ''Comment2_B1'' = Some (Str ''many-to-many'') \<and>
                       map_of (comparison r) ''Comment2_B1'' = Some (Str ''many-to-many'')))"
proof -
  have "map_of (block1 r) ''Comment2_B1'' = Some (Str ''many-to-many'') \<and>
        map_of (comparison r) ''Comment2_B1'' = Some (Str ''many-to-many'')"
    if a: "is_many_to_many df2 k" "group_rows21 df1 df2 k = Inr rs" and r: "r \<in> set rs" for rs r
  proof -
    from r obtain i where i: "i < length rs" and ri: "rs ! i = r" by (auto simp: in_set_conv_nth)
    from a group_rows21_nth[of df1 df2 k rs i] i ri
    have "\<exists>a b. build_rows21 a b True = Inr r" by auto
    then show ?thesis using build_rows21_many by blast
  qed
  then show ?thesis using build_block1_many by blast
qed

theorem C3_many_to_many_override_witness:
  "is_many_to_many sample_df2 ''X'' \<and>
   \<not> isl (group_rows21 sample_df1 sample_df2 ''X'') \<and>
   \<not> isl (build_block1 None (Some (rows sample_df2 ! 1)) True) \<and>
   map_of (projr (build_block1 None (Some (rows sample_df2 ! 1)) True)) ''Comment2_B1''
     = Some (Str ''many-to-many'') \<and>
   map_of (block1 (projr (group_rows21 sample_df1 sample_df2 ''X'') ! 1)) ''Comment2_B1''
     = Some (Str ''many-to-many'') \<and>
   map_of (comparison (projr (group_rows21 sample_df1 sample_df2 ''X'') ! 1)) ''Comment2_B1''
     = Some (Str ''many-to-many'')"
proof -
  have m: "is_many_to_many sample_df2 ''X''" by code_simp
  have g: "\<not> isl (group_rows21 sample_df1 sample_df2 ''X'')" by code_simp
  have b: "\<not> isl (build_block1 None (Some (rows sample_df2 ! 1)) True)" by code_simp
  have n: "max (length (sub_rows sample_df1 ''X'')) (length (sub_rows sample_df2 ''X'')) = 2"
    by code_simp
  obtain rs where rs: "group_rows21 sample_df1 sample_df2 ''X'' = Inr rs"
    using g by (cases "group_rows21 sample_df1 sample_df2 ''X''") auto
  obtain b1 where b1: "build_block1 None (Some (rows sample_df2 ! 1)) True = Inr b1"
    using b by (cases "build_block1 None (Some (rows sample_df2 ! 1)) True") auto
  have "length rs = 2" using group_rows21_length[OF rs] n by simp
  then have r: "rs ! 1 \<in> set rs" by simp
  from C3_many_to_many_override[of None "Some (rows sample_df2 ! 1)" sample_df2 "''X''" sample_df1]
    m rs b1 r g b
  show ?thesis by auto
qed

text \<open>
  C6. The newer script's \<open>get_activity_status\<close> follows the three rules in order: the
  lower-cased text of the status field contains \<open>close\<close>; else the date field is not
  missing and parses to an instant before now; else active. A value that does not parse
  (the parser raises, or yields no instant) leaves the second rule silent. The older
  script's \<open>is_inactive\<close> has the same shape, but its first rule asks for a string that
  contains \<open>closed\<close>.
\<close>

theorem C6_status_rules:
  "get_activity_status td now r =
     (if \<exists>ps ss. py_lower (py_str (row_get r ''Daytona'' (Str []))) = ps @ ''close'' @ ss
      then ''Inactive''
      else if notna (row_get r ''Elastic Daytona'' (Str [])) \<and>
              (\<exists>dt. td (row_get r ''Elastic Daytona'' (Str [])) = Some dt \<and> dt < now)
      then ''Inactive''
      else ''Active'') \<and>
   is_inactive td now daytona_val elastic_val =
     (if \<exists>s ps ss. daytona_val = Str s \<and> py_lower s = ps @ ''closed'' @ ss then True
      else if \<exists>dt. td elastic_val = Some dt \<and> dt < now then True
      else False)"
proof -
  have a: "(case td v of Some dt \<Rightarrow> dt < now | None \<Rightarrow> False) \<longleftrightarrow> (\<exists>dt. td v = Some dt \<and> dt < now)"
    for v by (cases "td v") auto
  have b: "is_str v \<and> py_in ''closed'' (py_lower (py_str v)) \<longleftrightarrow>
           (\<exists>s ps ss. v = Str s \<and> py_lower s = ps @ ''closed'' @ ss)" for v
    by (cases v) (auto simp: is_str_def py_in_iff simp del: append_Cons)
  have c: "get_activity_status td now r =
     (if \<exists>ps ss. py_lower (py_str (row_get r ''Daytona'' (Str []))) = ps @ ''close'' @ ss
      then ''Inactive''
      else if notna (row_get r ''Elastic Daytona'' (Str [])) \<and>
              (\<exists>dt. td (row_get r ''Elastic Daytona'' (Str [])) = Some dt \<and> dt < now)
      then ''Inactive''
      else ''Active'')"
    unfolding get_activity_status_def Let_def a py_in_iff by (rule refl)
  have d: "is_inactive td now daytona_val elastic_val =
     (if \<exists>s ps ss. daytona_val = Str s \<and> py_lower s = ps @ ''closed'' @ ss then True
      else if \<exists>dt. td elastic_val = Some dt \<and> dt < now then True
      else False)"
    unfolding is_inactive_def a b by (rule refl)
  from c d show ?thesis by (rule conjI)
qed

text \<open>
  The text \<open>Will Close\<close> contains \<open>close\<close> without regard to case; the newer script
  classifies the record inactive, the older one active.
\<close>

theorem C6_close_is_not_closed:
  "py_in ''close'' (py_lower (py_str (Str ''Will Close''))) \<and>
   \<not> is_inactive no_date 0 (Str ''Will Close'') Null \<and>
   get_activity_status no_date 0 [(''Daytona'', Str ''Will Close''), (''Elastic Daytona'', Null)] = ''Inactive'' \<and>
   rows (add_status9 no_date 0
     \<lparr>columns = [''Daytona'', ''Elastic Daytona''],
      rows = [[(''Daytona'', Str ''Will Close''), (''Elastic Daytona'', Null)]]\<rparr>)
   = [[(''Daytona'', Str ''Will Close''), (''Elastic Daytona'', Null), (''Status'', Str ''Active'')]]"
  by code_simp

text \<open>
  C7. A missing identifier gives the key \<open>(None, None)\<close>, and no group holds a record
  without identifier: in both scripts each side of each aligned pair is absent or a
  record whose identifier is present.
\<close>

theorem C7_null_identifier_excluded:
  "(isna v \<longrightarrow> split_noel v = (Null, Null)) \<and>
   (\<forall>n1 n2 a b.
      add_noel_columns t1 = Inr n1 \<and> add_noel_columns t2 = Inr n2 \<and>
      ((a, b) \<in> set (aligned_pairs (sub_rows (add_status21 td now n1) k)
                                      (sub_rows (add_status21 td now n2) k)) \<or>
       (a, b) \<in> set (aligned_pairs (sub_rows (add_status9 td now n1) k)
                                      (sub_rows (add_status9 td now n2) k))) \<longrightarrow>
      (\<forall>r. a = Some r \<longrightarrow> notna (row_get r ''Noel'' Null)) \<and>
      (\<forall>r. b = Some r \<longrightarrow> notna (row_get r ''Noel'' Null)))"
  using split_noel_Null sub_rows_status21 sub_rows_status9
  by (auto dest!: aligned_pairs_sides)

theorem C7_null_identifier_excluded_witness:
  "isna Null \<and> split_noel Null = (Null, Null) \<and>
   \<not> isl (add_noel_columns sample_t1) \<and> \<not> isl (add_noel_columns sample_t2) \<and>
   (Some (rows sample_df1 ! 0), Some (rows sample_df2 ! 0))
     \<in> set (aligned_pairs (sub_rows sample_df1 ''X'') (sub_rows sample_df2 ''X'')) \<and>
   notna (row_get (rows sample_df1 ! 0) ''Noel'' Null) \<and>
   notna (row_get (rows sample_df2 ! 0) ''Noel'' Null)"
proof -
  have i1: "\<not> isl (add_noel_columns sample_t1)" by code_simp
  have i2: "\<not> isl (add_noel_columns sample_t2)" by code_simp
  obtain n1 where n1: "add_noel_columns sample_t1 = Inr n1"
    using i1 by (cases "add_noel_columns sample_t1") auto
  obtain n2 where n2: "add_noel_columns sample_t2 = Inr n2"
    using i2 by (cases "add_noel_columns sample_t2") auto
  have e: "add_status21 no_date 0 n1 = sample_df1" "add_status21 no_date 0 n2 = sample_df2"
    using sample_enrichment[OF n1 n2] by simp_all
  have p: "(Some (rows sample_df1 ! 0), Some (rows sample_df2 ! 0))
             \<in> set (aligned_pairs (sub_rows sample_df1 ''X'') (sub_rows sample_df2 ''X''))"
    by code_simp
  have v: "isna Null" by (simp add: isna_def)
  from C7_null_identifier_excluded[of Null sample_t1 sample_t2 no_date 0 "''X''"] n1 n2 e p v
  have "split_noel Null = (Null, Null)"
    and "notna (row_get (rows sample_df1 ! 0) ''Noel'' Null)"
    and "notna (row_get (rows sample_df2 ! 0) ''Noel'' Null)"
    by auto
  with i1 i2 p v show ?thesis by simp
qed

text \<open>
  An identifier that is the empty string is not missing: its key is the empty string and
  its record is grouped and reported.
\<close>

theorem C7_empty_identifier_grouped:
  "split_noel (Str []) = (Str [], Null) \<and>
   main21 no_date 0 empty_id_t empty_id_t \<noteq> Inl ValueError \<and>
   \<not> isl (main21 no_date 0 empty_id_t empty_id_t) \<and>
   length (projr (main21 no_date 0 empty_id_t empty_id_t)) = 1 \<and>
   \<not> isl (main9 no_date 0 empty_id_t empty_id_t) \<and>
   length (projr (main9 no_date 0 empty_id_t empty_id_t)) = 1 \<and>
   map_of (block1 (projr (main21 no_date 0 empty_id_t empty_id_t) ! 0)) ''Table1_Noel'' = Some (Str [])"
  by code_simp

text \<open>
  C8. A sheet without rows makes both scripts raise \<open>ValueError\<close> where the key columns
  are added, and a Table1 without the column \<open>Land\<close> makes the older script raise
  \<open>KeyError\<close> in block B, while the same script reads \<open>Daytona\<close> under a guard.
\<close>

theorem C8_empty_sheet_raises:
  "main21 td now empty_t t2 = Inl ValueError \<and>
   main9 td now empty_t t2 = Inl ValueError \<and>
   main21 td now sample_t1 empty_t = Inl ValueError \<and>
   main9 no_date 0 no_land_t sample_t2 = Inl (KeyError ''Land'') \<and>
   \<not> isl (main9 no_date 0 sample_t1 sample_t2)"
proof -
  have a: "add_noel_columns empty_t = Inl ValueError"
    by (simp add: add_noel_columns_def empty_t_def)
  have b: "\<not> isl (add_noel_columns sample_t1)"
    by (simp add: add_noel_columns_def sample_t1_def)
  have c: "main9 no_date 0 no_land_t sample_t2 = Inl (KeyError ''Land'')" by code_simp
  have d: "\<not> isl (main9 no_date 0 sample_t1 sample_t2)" by code_simp
  from a b c d show ?thesis
    by (auto simp: main21_def main9_def split: sum.splits)
qed

text \<open>
  C10. The BLOC 3 part of a row is built from the Table2 record alone: two pairs with the
  same Table2 side have the same BLOC 3 dictionary and the same BLOC 3 values in the
  Comparison row, whatever the Table1 side and the flag are; without a Table2 record every
  BLOC 3 value is missing.
\<close>

theorem C10_block3_depends_on_B_only:
  "(\<forall>s s'. build_rows21 a b m = Inr s \<and> build_rows21 a' b m' = Inr s' \<longrightarrow>
      block3 s = block3 s' \<and>
      (\<forall>c \<in> set block3_cols.
         map_of (comparison s) (''Table2_'' @ c) = map_of (comparison s') (''Table2_'' @ c) \<and>
         map_of (block3 s) (''Table2_'' @ c) = Some (side_get b c) \<and>
         map_of (comparison s) (''Table2_'' @ c) = Some (side_get b c))) \<and>
   (\<forall>s. build_rows21 a None m = Inr s \<longrightarrow>
      (\<forall>c \<in> set block3_cols.
         map_of (block3 s) (''Table2_'' @ c) = Some Null \<and>
         map_of (comparison s) (''Table2_'' @ c) = Some Null))"
proof -
  have n: "side_get None c = Null" for c by (simp add: side_get_def)
  show ?thesis
    using build_rows21_block3 map_of_build_block3 n
    by (intro conjI allI impI ballI) (metis)+
qed

theorem C10_block3_depends_on_B_only_witness:
  "\<not> isl (build_rows21 (Some (rows sample_df1 ! 0)) (Some (rows sample_df2 ! 0)) True) \<and>
   \<not> isl (build_rows21 None (Some (rows sample_df2 ! 0)) False) \<and>
   \<not> isl (build_rows21 (Some (rows sample_df1 ! 0)) None False) \<and>
   ''Right'' \<in> set block3_cols \<and>
   block3 (projr (build_rows21 (Some (rows sample_df1 ! 0)) (Some (rows sample_df2 ! 0)) True))
     = block3 (projr (build_rows21 None (Some (rows sample_df2 ! 0)) False)) \<and>
   map_of (comparison (projr (build_rows21 (Some (rows sample_df1 ! 0)) (Some (rows sample_df2 ! 0)) True)))
     (''Table2_'' @ ''Right'') = Some (Str ''r'') \<and>
   map_of (comparison (projr (build_rows21 None (Some (rows sample_df2 ! 0)) False)))
     (''Table2_'' @ ''Right'') = Some (Str ''r'') \<and>
   map_of (block3 (projr (build_rows21 (Some (rows sample_df1 ! 0)) None False)))
     (''Table2_'' @ ''Right'') = Some Null"
proof -
  let ?a = "Some (rows sample_df1 ! 0)" and ?b = "Some (rows sample_df2 ! 0)"
  have i1: "\<not> isl (build_rows21 ?a ?b True)" by code_simp
  have i2: "\<not> isl (build_rows21 None ?b False)" by code_simp
  have i3: "\<not> isl (build_rows21 ?a None False)" by code_simp
  have c: "''Right'' \<in> set block3_cols" by (simp add: block3_cols_def)
  have v: "side_get ?b ''Right'' = Str ''r''" by code_simp
  obtain s where s: "build_rows21 ?a ?b True = Inr s"
    using i1 by (cases "build_rows21 ?a ?b True") auto
  obtain s' where s': "build_rows21 None ?b False = Inr s'"
    using i2 by (cases "build_rows21 None ?b False") auto
  obtain s'' where s'': "build_rows21 ?a None False = Inr s''"
    using i3 by (cases "build_rows21 ?a None False") auto
  from C10_block3_depends_on_B_only[of ?a ?b True None False] s s' c
  have 1: "block3 s = block3 s'"
    and 2: "map_of (comparison s) (''Table2_'' @ ''Right'') = Some (side_get ?b ''Right'')"
    and 3: "map_of (comparison s') (''Table2_'' @ ''Right'') = Some (side_get ?b ''Right'')"
    by metis+
  from C10_block3_depends_on_B_only[of ?a ?b False ?a False] s'' c
  have 4: "map_of (block3 s'') (''Table2_'' @ ''Right'') = Some Null" by metis
  from 1 2 3 4 v i1 i2 i3 c s s' s'' show ?thesis by (simp del: append_Cons)
qed

text \<open>
  C4. With the identifier present on both sides, \<open>build_block2\<close> of the newer script
  reports MATCH exactly when no other shared field is a mismatch or missing on one side,
  and GAP exactly when some field is: a field equal on both sides or missing on both never
  stands in the way. Block A of the older script is stricter: it reports MATCH exactly
  when no core field of either table is missing on its own side and every field in both
  core lists, the identifier included, is equal.
\<close>

theorem C4_block_aggregate:
  "(notna (side_get row1 ''Noel'') \<and> notna (side_get row2 ''Noel'') \<longrightarrow>
      (map_of (build_block2 row1 row2) ''Comment2_B2'' = Some (Str ''shared dimensions MATCH'') \<longleftrightarrow>
         (\<forall>c \<in> set shared_cols. c \<noteq> ''Noel'' \<longrightarrow>
            classify_field (side_get row1 c) (side_get row2 c) \<notin> {Mismatch, MissingInA, MissingInB})) \<and>
      (map_of (build_block2 row1 row2) ''Comment2_B2'' = Some (Str ''shared dimensions GAP'') \<longleftrightarrow>
         (\<exists>c \<in> set shared_cols. c \<noteq> ''Noel'' \<and>
            classify_field (side_get row1 c) (side_get row2 c) \<in> {Mismatch, MissingInA, MissingInB}))) \<and>
   (map_of (blockA9 core_t1 core_t2 row1 row2) ''CommentA_1'' = Some (Str ''MATCH'') \<longleftrightarrow>
      (\<forall>c \<in> set core_t1. notna (side_get row1 c)) \<and>
      (\<forall>c \<in> set core_t2. notna (side_get row2 c)) \<and>
      (\<forall>c \<in> set core_t1 \<inter> set core_t2. classify_field (side_get row1 c) (side_get row2 c) = Match))"
proof -
  have a: "map_of (blockA9 core_t1 core_t2 row1 row2) ''CommentA_1'' = Some (Str ''MATCH'') \<longleftrightarrow>
      (\<forall>c \<in> set core_t1. notna (side_get row1 c)) \<and>
      (\<forall>c \<in> set core_t2. notna (side_get row2 c)) \<and>
      (\<forall>c \<in> set core_t1 \<inter> set core_t2. classify_field (side_get row1 c) (side_get row2 c) = Match)"
    unfolding blockA9_comments
    by (auto simp: filter_empty_conv classify_field_def notna_def isna_def)
  have b: "notna (side_get row1 ''Noel'') \<and> notna (side_get row2 ''Noel'') \<longrightarrow>
      (map_of (build_block2 row1 row2) ''Comment2_B2'' = Some (Str ''shared dimensions MATCH'') \<longleftrightarrow>
         (\<forall>c \<in> set shared_cols. c \<noteq> ''Noel'' \<longrightarrow>
            classify_field (side_get row1 c) (side_get row2 c) \<notin> {Mismatch, MissingInA, MissingInB})) \<and>
      (map_of (build_block2 row1 row2) ''Comment2_B2'' = Some (Str ''shared dimensions GAP'') \<longleftrightarrow>
         (\<exists>c \<in> set shared_cols. c \<noteq> ''Noel'' \<and>
            classify_field (side_get row1 c) (side_get row2 c) \<in> {Mismatch, MissingInA, MissingInB}))"
    unfolding block2_Comment2 outcome_cases[symmetric]
    by (auto simp: notna_def isna_def)
  from a b show ?thesis by blast
qed

theorem C4_block_aggregate_witness:
  "notna (side_get (Some pizza_row) ''Noel'') \<and>
   ''Pizza'' \<in> set shared_cols \<and>
   classify_field (side_get (Some pizza_row) ''Pizza'') (side_get (Some pizza_row) ''Pizza'') = BothMissing \<and>
   map_of (build_block2 (Some pizza_row) (Some pizza_row)) ''Comment2_B2''
     = Some (Str ''shared dimensions MATCH'') \<and>
   map_of (build_block2 (Some pizza_row) (Some pizza_row)) ''Comment2_B2''
     \<noteq> Some (Str ''shared dimensions GAP'') \<and>
   map_of (blockA9 [''Noel'', ''Daytona''] [''Noel'', ''Daytona''] (Some pizza_row) (Some pizza_row))
     ''CommentA_1'' = Some (Str ''MATCH'')"
proof -
  let ?r = "Some pizza_row"
  have n: "notna (side_get ?r ''Noel'')" by code_simp
  have p: "''Pizza'' \<in> set shared_cols" by code_simp
  have bm: "classify_field (side_get ?r ''Pizza'') (side_get ?r ''Pizza'') = BothMissing" by code_simp
  have ok: "\<forall>c \<in> set shared_cols. c \<noteq> ''Noel'' \<longrightarrow>
              classify_field (side_get ?r c) (side_get ?r c) \<notin> {Mismatch, MissingInA, MissingInB}"
    by code_simp
  have a1: "\<forall>c \<in> set [''Noel'', ''Daytona'']. notna (side_get ?r c)" by code_simp
  have a2: "\<forall>c \<in> set [''Noel'', ''Daytona''] \<inter> set [''Noel'', ''Daytona''].
              classify_field (side_get ?r c) (side_get ?r c) = Match" by code_simp
  from C4_block_aggregate[of ?r ?r "[''Noel'', ''Daytona'']" "[''Noel'', ''Daytona'']"] n ok a1 a2
  have "map_of (build_block2 ?r ?r) ''Comment2_B2'' = Some (Str ''shared dimensions MATCH'')"
    and "map_of (blockA9 [''Noel'', ''Daytona''] [''Noel'', ''Daytona''] ?r ?r) ''CommentA_1''
           = Some (Str ''MATCH'')"
    by blast+
  with n p bm show ?thesis by simp
qed

text \<open>
  A pair whose fields are all equal or missing on both sides: the newer script reports
  MATCH, block A of the older script reports Missing Core Data.
\<close>

theorem C4_both_missing_blocks_match:
  "rows (add_status9 no_date 0 (projr (add_noel_columns pizza_t))) = [pizza_row] \<and>
   core_of (columns pizza_t) = [''Noel'', ''Daytona'', ''Pizza'', ''Land''] \<and>
   notna (side_get (Some pizza_row) ''Noel'') \<and>
   classify_field (side_get (Some pizza_row) ''Daytona'') (side_get (Some pizza_row) ''Daytona'') = Match \<and>
   classify_field (side_get (Some pizza_row) ''Pizza'') (side_get (Some pizza_row) ''Pizza'') = BothMissing \<and>
   classify_field (side_get (Some pizza_row) ''Land'') (side_get (Some pizza_row) ''Land'') = Match \<and>
   map_of (blockA9 (core_of (columns pizza_t)) (core_of (columns pizza_t)) (Some pizza_row) (Some pizza_row))
     ''CommentA_1'' = Some (Str ''Missing Core Data'') \<and>
   \<not> isl (main9 no_date 0 pizza_t pizza_t) \<and>
   length (projr (main9 no_date 0 pizza_t pizza_t)) = 1 \<and>
   map_of (projr (main9 no_date 0 pizza_t pizza_t) ! 0) ''CommentA_1'' = Some (Str ''Missing Core Data'')"
  by code_simp

text \<open>
  C5. When the identifier is missing on a side, \<open>build_block2\<close> writes \<open>N/A\<close> for
  both its aggregate and its list of differing columns. In the older script the
  identifier of a pair is missing on a side only when that side is absent; block A then
  reports Missing Core Data and lists no mismatched column, in the block and in the
  output row.
\<close>

theorem C5_identity_missing:
  "(isna (side_get row1 ''Noel'') \<or> isna (side_get row2 ''Noel'') \<longrightarrow>
      map_of (build_block2 row1 row2) ''Comment2_B2'' = Some (Str ''N/A'') \<and>
      map_of (build_block2 row1 row2) ''Comment3_B2'' = Some (Str ''N/A'')) \<and>
   (\<forall>n1 n2 a b.
      add_noel_columns t1 = Inr n1 \<and> add_noel_columns t2 = Inr n2 \<and>
      (a, b) \<in> set (aligned_pairs (sub_rows (add_status9 td now n1) k)
                                     (sub_rows (add_status9 td now n2) k)) \<and>
      (isna (side_get a ''Noel'') \<or> isna (side_get b ''Noel'')) \<longrightarrow>
      map_of (blockA9 (core_of (columns t1)) (core_of (columns t2)) a b) ''CommentA_1''
        = Some (Str ''Missing Core Data'') \<and>
      map_of (blockA9 (core_of (columns t1)) (core_of (columns t2)) a b) ''CommentA_3''
        = Some (Str ''No mismatch'') \<and>
      (\<forall>i row. build_row9 (columns t1) (columns t2) a b i = Inr row \<longrightarrow>
         map_of row ''CommentA_1'' = Some (Str ''Missing Core Data'') \<and>
         map_of row ''CommentA_3'' = Some (Str ''No mismatch'')))"
proof -
  have 1: "map_of (build_block2 row1 row2) ''Comment2_B2'' = Some (Str ''N/A'') \<and>
           map_of (build_block2 row1 row2) ''Comment3_B2'' = Some (Str ''N/A'')"
    if "isna (side_get row1 ''Noel'') \<or> isna (side_get row2 ''Noel'')"
    using that block2_Comment3_NA[OF that] unfolding block2_Comment2 by simp
  have 2: "map_of (blockA9 (core_of (columns t1)) (core_of (columns t2)) a b) ''CommentA_1''
             = Some (Str ''Missing Core Data'') \<and>
           map_of (blockA9 (core_of (columns t1)) (core_of (columns t2)) a b) ''CommentA_3''
             = Some (Str ''No mismatch'') \<and>
           (\<forall>i row. build_row9 (columns t1) (columns t2) a b i = Inr row \<longrightarrow>
              map_of row ''CommentA_1'' = Some (Str ''Missing Core Data'') \<and>
              map_of row ''CommentA_3'' = Some (Str ''No mismatch''))"
    if h: "add_noel_columns t1 = Inr n1" "add_noel_columns t2 = Inr n2"
      "(a, b) \<in> set (aligned_pairs (sub_rows (add_status9 td now n1) k)
                                     (sub_rows (add_status9 td now n2) k))"
      "isna (side_get a ''Noel'') \<or> isna (side_get b ''Noel'')" for n1 n2 a b
  proof -
    have ab: "a = None \<or> b = None" using pair9_identity_missing[OF h] .
    note A = blockA9_side_absent[OF ab Noel_in_core[OF h(1)] Noel_in_core[OF h(2)]]
    show ?thesis using A build_row9_blockA_comment[of "columns t1" "columns t2" a b]
      by simp
  qed
  from 1 2 show ?thesis by blast
qed

theorem C5_identity_missing_witness:
  "isna (side_get None ''Noel'') \<and>
   map_of (build_block2 None (Some (rows sample_df2 ! 1))) ''Comment2_B2'' = Some (Str ''N/A'') \<and>
   map_of (build_block2 None (Some (rows sample_df2 ! 1))) ''Comment3_B2'' = Some (Str ''N/A'') \<and>
   \<not> isl (add_noel_columns sample_t1) \<and> \<not> isl (add_noel_columns sample_t2) \<and>
   (Some (rows sample_df1 ! 2), None)
     \<in> set (aligned_pairs (sub_rows sample_df1 ''Z'') (sub_rows sample_df2 ''Z'')) \<and>
   map_of (blockA9 (core_of (columns sample_t1)) (core_of (columns sample_t2))
             (Some (rows sample_df1 ! 2)) None) ''CommentA_1'' = Some (Str ''Missing Core Data'') \<and>
   map_of (blockA9 (core_of (columns sample_t1)) (core_of (columns sample_t2))
             (Some (rows sample_df1 ! 2)) None) ''CommentA_3'' = Some (Str ''No mismatch'') \<and>
   \<not> isl (build_row9 (columns sample_t1) (columns sample_t2) (Some (rows sample_df1 ! 2)) None 0) \<and>
   map_of (projr (build_row9 (columns sample_t1) (columns sample_t2) (Some (rows sample_df1 ! 2)) None 0))
     ''CommentA_1'' = Some (Str ''Missing Core Data'')"
proof -
  let ?a = "Some (rows sample_df1 ! 2)"
  let ?c1 = "columns sample_t1" and ?c2 = "columns sample_t2"
  have i1: "\<not> isl (add_noel_columns sample_t1)" by code_simp
  have i2: "\<not> isl (add_noel_columns sample_t2)" by code_simp
  obtain n1 where n1: "add_noel_columns sample_t1 = Inr n1"
    using i1 by (cases "add_noel_columns sample_t1") auto
  obtain n2 where n2: "add_noel_columns sample_t2 = Inr n2"
    using i2 by (cases "add_noel_columns sample_t2") auto
  have e: "add_status9 no_date 0 n1 = sample_df1" "add_status9 no_date 0 n2 = sample_df2"
    using sample_enrichment[OF n1 n2] by simp_all
  have p: "(?a, None) \<in> set (aligned_pairs (sub_rows sample_df1 ''Z'') (sub_rows sample_df2 ''Z''))"
    by code_simp
  have v: "isna (side_get None ''Noel'')" by code_simp
  have r: "\<not> isl (build_row9 ?c1 ?c2 ?a None 0)" by code_simp
  obtain row where row: "build_row9 ?c1 ?c2 ?a None 0 = Inr row"
    using r by (cases "build_row9 ?c1 ?c2 ?a None 0") auto
  note T = C5_identity_missing[of None "Some (rows sample_df2 ! 1)" sample_t1 sample_t2 no_date 0 "''Z''"]
  from T v have b: "map_of (build_block2 None (Some (rows sample_df2 ! 1))) ''Comment2_B2'' = Some (Str ''N/A'')"
    "map_of (build_block2 None (Some (rows sample_df2 ! 1))) ''Comment3_B2'' = Some (Str ''N/A'')"
    by blast+
  from T n1 n2 e p v
  have A: "map_of (blockA9 (core_of ?c1) (core_of ?c2) ?a None) ''CommentA_1'' = Some (Str ''Missing Core Data'')"
    "map_of (blockA9 (core_of ?c1) (core_of ?c2) ?a None) ''CommentA_3'' = Some (Str ''No mismatch'')"
    "\<forall>i row. build_row9 ?c1 ?c2 ?a None i = Inr row \<longrightarrow>
         map_of row ''CommentA_1'' = Some (Str ''Missing Core Data'') \<and>
         map_of row ''CommentA_3'' = Some (Str ''No mismatch'')"
    by metis+
  from A(3) row have "map_of row ''CommentA_1'' = Some (Str ''Missing Core Data'')" by blast
  with v b i1 i2 p A(1,2) r row show ?thesis by simp
qed

text \<open>
  C9. A key with one Table1 record and no Table2 record gives one row. The newer script
  writes \<open>missing in Table2\<close> as presence comment, leaves the Table2 status empty and
  its activity comment names the state of Table1 only. The older script, when Table1 has
  the column \<open>Land\<close>, writes \<open>T2 missing\<close> in the pair comment and
  \<open>One or both missing\<close> as activity comment.
\<close>

theorem C9_key_only_in_A:
  "(\<forall>n1 n2 r1.
      add_noel_columns t1 = Inr n1 \<and> add_noel_columns t2 = Inr n2 \<and>
      sub_rows (add_status21 td now n1) k = [r1] \<and> sub_rows (add_status21 td now n2) k = [] \<longrightarrow>
      (\<exists>s. group_rows21 (add_status21 td now n1) (add_status21 td now n2) k = Inr [s] \<and>
            map_of (block1 s) ''Comment2_B1'' = Some (Str ''missing in Table2'') \<and>
            map_of (block1 s) ''Table2_Status'' = Some Null \<and>
            map_of (block1 s) ''Comment1_B1''
              \<in> {Some (Str ''Table1 Active''), Some (Str ''Table1 Inactive'')})) \<and>
   (\<forall>n1 n2 r1.
      add_noel_columns t1 = Inr n1 \<and> add_noel_columns t2 = Inr n2 \<and>
      sub_rows (add_status9 td now n1) k = [r1] \<and> sub_rows (add_status9 td now n2) k = [] \<and>
      row_has r1 ''Land'' \<longrightarrow>
      (\<exists>row. group_rows9 (columns t1) (columns t2) (add_status9 td now n1) (add_status9 td now n2) k
                = Inr [row] \<and>
              map_of row ''ActiveComment'' = Some (Str ''One or both missing'') \<and>
              map_of row ''1-1 Comment''
                = Some (Str (''Row 1: T1 Noel='' @ py_str (row_get r1 ''Noel'' Null) @ '', T2 missing''))))"
proof -
  have 1: "\<exists>s. group_rows21 (add_status21 td now n1) (add_status21 td now n2) k = Inr [s] \<and>
            map_of (block1 s) ''Comment2_B1'' = Some (Str ''missing in Table2'') \<and>
            map_of (block1 s) ''Table2_Status'' = Some Null \<and>
            map_of (block1 s) ''Comment1_B1''
              \<in> {Some (Str ''Table1 Active''), Some (Str ''Table1 Inactive'')}"
    if h: "add_noel_columns t1 = Inr n1" "add_noel_columns t2 = Inr n2"
      "sub_rows (add_status21 td now n1) k = [r1]" "sub_rows (add_status21 td now n2) k = []"
    for n1 n2 r1
  proof -
    have "r1 \<in> set (sub_rows (add_status21 td now n1) k)" using h(3) by simp
    from group_member21[OF h(1) this] obtain v st where
      v: "map_of r1 ''Noel'' = Some v" and st: "row_get r1 ''Status'' Null = Str st"
      and sv: "st \<in> {''Active'', ''Inactive''}" by blast
    from build_block1_only_A[OF v st] obtain b1 where
      b1: "build_block1 (Some r1) None False = Inr b1"
      and c: "map_of b1 ''Comment2_B1'' = Some (Str ''missing in Table2'')"
        "map_of b1 ''Table2_Status'' = Some Null"
        "map_of b1 ''Comment1_B1'' = Some (Str (''Table1 '' @ st))" by blast
    have m: "\<not> is_many_to_many (add_status21 td now n2) k"
      by (simp add: is_many_to_many_def second_map_get_def h(4))
    have "group_rows21 (add_status21 td now n1) (add_status21 td now n2) k
          = Inr [\<lparr>block1 = b1, block2 = build_block2 (Some r1) None,
                   block3 = build_block3 None block3_cols,
                   comparison = dict_merge (dict_merge b1 (build_block2 (Some r1) None))
                                  (build_block3 None block3_cols)\<rparr>]"
      by (simp add: group_rows21_def h(3,4) aligned_pairs_only_A m build_rows21_def b1 Let_def)
    moreover have "map_of b1 ''Comment1_B1''
              \<in> {Some (Str ''Table1 Active''), Some (Str ''Table1 Inactive'')}"
      using c(3) sv by auto
    ultimately show ?thesis using c(1,2) by simp
  qed
  have 2: "\<exists>row. group_rows9 (columns t1) (columns t2) (add_status9 td now n1) (add_status9 td now n2) k
                = Inr [row] \<and>
              map_of row ''ActiveComment'' = Some (Str ''One or both missing'') \<and>
              map_of row ''1-1 Comment''
                = Some (Str (''Row 1: T1 Noel='' @ py_str (row_get r1 ''Noel'' Null) @ '', T2 missing''))"
    if h: "add_noel_columns t1 = Inr n1" "add_noel_columns t2 = Inr n2"
      "sub_rows (add_status9 td now n1) k = [r1]" "sub_rows (add_status9 td now n2) k = []"
      "row_has r1 ''Land''"
    for n1 n2 r1
  proof -
    have "r1 \<in> set (sub_rows (add_status9 td now n1) k)" using h(3) by simp
    from group_member9[OF h(1) this] obtain v st where
      v: "map_of r1 ''Noel'' = Some v" and vn: "v \<noteq> Null" and rv: "row_get r1 ''Noel'' Null = v"
      and st: "map_of r1 ''Status'' = Some (Str st)" by blast
    from h(5) obtain l where l: "map_of r1 ''Land'' = Some l" by (auto simp: row_has_def)
    from blockB9_only_A[OF v vn l st] obtain bb where
      bb: "blockB9 (Some r1) None 0 = Inr bb"
      and c: "map_of bb ''ActiveComment'' = Some (Str ''One or both missing'')"
        "map_of bb ''1-1 Comment'' = Some (Str (''Row 1: T1 Noel='' @ py_str v @ '', T2 missing''))"
      by blast
    define row where "row = dict_merge (dict_merge (blockA9 (core_of (columns t1)) (core_of (columns t2)) (Some r1) None) bb)
                      (blockC9 (noncore_of (columns t1)) (noncore_of (columns t2)) (Some r1) None)"
    have br: "build_row9 (columns t1) (columns t2) (Some r1) None 0 = Inr row"
      by (simp add: build_row9_def Let_def bb row_def)
    have "group_rows9 (columns t1) (columns t2) (add_status9 td now n1) (add_status9 td now n2) k = Inr [row]"
      by (simp add: group_rows9_def h(3,4) aligned_pairs_only_A Let_def br)
    moreover have "map_of row ''ActiveComment'' = Some (Str ''One or both missing'')"
      using build_row9_blockB_comment[OF br bb, of "''ActiveComment''"] c(1) by simp
    moreover have "map_of row ''1-1 Comment''
                = Some (Str (''Row 1: T1 Noel='' @ py_str (row_get r1 ''Noel'' Null) @ '', T2 missing''))"
      using build_row9_blockB_comment[OF br bb, of "''1-1 Comment''"] c(2) rv by simp
    ultimately show ?thesis by blast
  qed
  from 1 2 show ?thesis by blast
qed

theorem C9_key_only_in_A_witness:
  "\<not> isl (add_noel_columns sample_t1) \<and> \<not> isl (add_noel_columns sample_t2) \<and>
   sub_rows sample_df1 ''Z'' = [rows sample_df1 ! 2] \<and>
   sub_rows sample_df2 ''Z'' = [] \<and>
   row_has (rows sample_df1 ! 2) ''Land'' \<and>
   \<not> isl (group_rows21 sample_df1 sample_df2 ''Z'') \<and>
   map_of (block1 (projr (group_rows21 sample_df1 sample_df2 ''Z'') ! 0)) ''Comment2_B1''
     = Some (Str ''missing in Table2'') \<and>
   \<not> isl (group_rows9 (columns sample_t1) (columns sample_t2) sample_df1 sample_df2 ''Z'') \<and>
   map_of (projr (group_rows9 (columns sample_t1) (columns sample_t2) sample_df1 sample_df2 ''Z'') ! 0)
     ''ActiveComment'' = Some (Str ''One or both missing'')"
proof -
  let ?r = "rows sample_df1 ! 2"
  have i1: "\<not> isl (add_noel_columns sample_t1)" by code_simp
  have i2: "\<not> isl (add_noel_columns sample_t2)" by code_simp
  obtain n1 where n1: "add_noel_columns sample_t1 = Inr n1"
    using i1 by (cases "add_noel_columns sample_t1") auto
  obtain n2 where n2: "add_noel_columns sample_t2 = Inr n2"
    using i2 by (cases "add_noel_columns sample_t2") auto
  have e: "add_status21 no_date 0 n1 = sample_df1" "add_status21 no_date 0 n2 = sample_df2"
    "add_status9 no_date 0 n1 = sample_df1" "add_status9 no_date 0 n2 = sample_df2"
    using sample_enrichment[OF n1 n2] by simp_all
  have s: "sub_rows sample_df1 ''Z'' = [?r]" "sub_rows sample_df2 ''Z'' = []" by code_simp+
  have l: "row_has ?r ''Land''" by code_simp
  note T = C9_key_only_in_A[of sample_t1 sample_t2 no_date 0 "''Z''"]
  from T n1 n2 e s obtain x where
    x: "group_rows21 sample_df1 sample_df2 ''Z'' = Inr [x]"
       "map_of (block1 x) ''Comment2_B1'' = Some (Str ''missing in Table2'')"
    by metis
  from T n1 n2 e s l obtain row where
    row: "group_rows9 (columns sample_t1) (columns sample_t2) sample_df1 sample_df2 ''Z'' = Inr [row]"
         "map_of row ''ActiveComment'' = Some (Str ''One or both missing'')"
    by metis
  from i1 i2 s l x row show ?thesis by simp
qed

text \<open>
  The activity comment of the newer script for the key \<open>Z\<close> of the sample tables:
  it does not mention Table2 and does not say that anything is missing.
\<close>

theorem C9_newer_script_omits_B:
  "sub_rows sample_df1 ''Z'' = [rows sample_df1 ! 2] \<and>
   sub_rows sample_df2 ''Z'' = [] \<and>
   \<not> isl (group_rows21 sample_df1 sample_df2 ''Z'') \<and>
   length (projr (group_rows21 sample_df1 sample_df2 ''Z'')) = 1 \<and>
   map_of (block1 (projr (group_rows21 sample_df1 sample_df2 ''Z'') ! 0)) ''Comment2_B1''
     = Some (Str ''missing in Table2'') \<and>
   map_of (block1 (projr (group_rows21 sample_df1 sample_df2 ''Z'') ! 0)) ''Comment1_B1''
     = Some (Str ''Table1 Active'') \<and>
   \<not> py_in ''missing'' (py_lower ''Table1 Active'') \<and>
   \<not> py_in ''table2'' (py_lower ''Table1 Active'')"
  by code_simp

end
